theory Spec2Isabelle
  imports Complex_Main
begin

section \<open>The stencil validator of \<open>src/commands/validate.ts\<close>\<close>

text \<open>
  The validation engine is the TypeScript module \<open>validate.ts\<close>. Its functions push
  findings onto one shared array \<open>results\<close>; here every function takes the array and
  returns the extended one. Everything the module obtains from the outside world (the file
  system, the YAML parser, the path library, the wording of the schema library's default
  messages) is a field of the record \<open>env\<close>, so that one value of \<open>env\<close> is one
  unchanged directory tree read by one installation of the program. The time of the run is
  a parameter of its own.
\<close>

subsection \<open>JavaScript values\<close>

text \<open>
  What \<open>parseYaml\<close> can return: null, booleans, numbers, strings, arrays and plain
  objects. A number is only ever tested for truthiness and for its type, so it is kept as
  not-a-number, an infinity or a rational. An absent property (\<open>undefined\<close>) is
  \<open>None\<close> of \<open>jsvalue option\<close>.
\<close>

datatype jsnumber = JNaN | JInf bool | JFin rat

datatype jsvalue =
    JNull
  | JBool bool
  | JNumber jsnumber
  | JString string
  | JArray "jsvalue list"
  | JObject "(string \<times> jsvalue) list"

text \<open>A thrown value: an \<open>Error\<close> with its message, or anything else.\<close>

datatype js_exn = JsError string | NonError

text \<open>\<open>settingsObj.k\<close> for the keys the module reads (none of them is inherited).\<close>

fun property :: "jsvalue \<Rightarrow> string \<Rightarrow> jsvalue option" where
  "property (JObject kvs) k = map_of kvs k"
| "property _ k = None"

text \<open>JavaScript's conversion to boolean, as \<open>if (v)\<close> and \<open>!v\<close> apply it.\<close>

fun truthy :: "jsvalue option \<Rightarrow> bool" where
  "truthy None = False"
| "truthy (Some JNull) = False"
| "truthy (Some (JBool b)) = b"
| "truthy (Some (JNumber n)) = (case n of JNaN \<Rightarrow> False | JInf s \<Rightarrow> True | JFin r \<Rightarrow> r \<noteq> 0)"
| "truthy (Some (JString s)) = (s \<noteq> [])"
| "truthy (Some (JArray xs)) = True"
| "truthy (Some (JObject kvs)) = True"

text \<open>\<open>typeof settings !== 'object' || settings === null\<close>, negated.\<close>

fun is_object :: "jsvalue \<Rightarrow> bool" where
  "is_object (JArray xs) = True"
| "is_object (JObject kvs) = True"
| "is_object _ = False"

text \<open>\<open>Array.isArray\<close> on a property, and the elements a loop over it visits.\<close>

fun isArray :: "jsvalue option \<Rightarrow> bool" where
  "isArray (Some (JArray xs)) = True"
| "isArray _ = False"

fun elements :: "jsvalue option \<Rightarrow> jsvalue list" where
  "elements (Some (JArray xs)) = xs"
| "elements _ = []"

subsection \<open>Findings, summaries and options\<close>

text \<open>
  \<open>ValidationResult\<close> and \<open>ValidationSummary\<close> as the module declares them; the
  \<open>path\<close> of a summary is \<open>summary_path\<close> here, a finding without \<open>details\<close> has
  \<open>None\<close>.
\<close>

datatype severity = Error | Warning | Info

record ValidationResult =
  path :: string
  type :: severity
  message :: string
  details :: "string option"

record ValidationSummary =
  success :: bool
  summary_path :: string
  errors :: "ValidationResult list"
  warnings :: "ValidationResult list"
  info :: "ValidationResult list"
  totalFiles :: nat
  validatedAt :: string

text \<open>
  The options arrive from the command line unchecked, so \<open>format\<close> and \<open>failOn\<close>
  are strings; \<open>strict\<close> and \<open>ignore\<close> may be absent.
\<close>

record ValidateOptions =
  format :: string
  failOn :: string
  strict :: "bool option"
  ignore :: "string list option"

text \<open>\<open>results.push(r)\<close>.\<close>

definition push :: "'a list \<Rightarrow> 'a \<Rightarrow> 'a list" where
  "push rs r = rs @ [r]"

subsection \<open>The environment\<close>

text \<open>
  \<open>existsSync\<close>, \<open>isDirectory\<close> (for \<open>statSync(p).isDirectory()\<close>, which the module
  only calls on a path that exists), \<open>readFileSync\<close> and \<open>glob\<close> (the pattern
  \<open>**/*\<close> with \<open>nodir\<close>, under the given directory) observe the file system;
  \<open>parseYaml\<close>, \<open>join\<close>, \<open>resolve\<close> and \<open>cwd\<close> are the libraries and the process.
  \<open>invalid_type_message expected received\<close> is the schema library's default message for a
  value of the wrong type, whose wording depends on the library's version.
\<close>

record env =
  existsSync :: "string \<Rightarrow> bool"
  isDirectory :: "string \<Rightarrow> bool"
  readFileSync :: "string \<Rightarrow> js_exn + string"
  glob :: "string \<Rightarrow> string list"
  parseYaml :: "string \<Rightarrow> js_exn + jsvalue"
  join :: "string \<Rightarrow> string \<Rightarrow> string"
  resolve :: "string \<Rightarrow> string \<Rightarrow> string"
  cwd :: string
  invalid_type_message :: "string \<Rightarrow> jsvalue option \<Rightarrow> string"

subsection \<open>The schema\<close>

text \<open>
  An issue of the schema library: the path of the offending value (keys and array
  indices) and a message. \<open>err.path.join('.')\<close> prints an index in decimal.
\<close>

datatype path_elem = Key string | Index nat

record ZodIssue =
  issue_path :: "path_elem list"
  issue_message :: string

fun string_of_nat :: "nat \<Rightarrow> string" where
  "string_of_nat n =
     (if n < 10 then [''0123456789'' ! n]
      else string_of_nat (n div 10) @ [''0123456789'' ! (n mod 10)])"

declare string_of_nat.simps [simp del]

fun path_elem_string :: "path_elem \<Rightarrow> string" where
  "path_elem_string (Key k) = k"
| "path_elem_string (Index i) = string_of_nat i"

fun join_with :: "string \<Rightarrow> string list \<Rightarrow> string" where
  "join_with sep [] = []"
| "join_with sep [x] = x"
| "join_with sep (x # y # ys) = x @ sep @ join_with sep (y # ys)"

definition invalid_type :: "env \<Rightarrow> path_elem list \<Rightarrow> string \<Rightarrow> jsvalue option \<Rightarrow> ZodIssue" where
  "invalid_type e p expected received =
     \<lparr>issue_path = p, issue_message = invalid_type_message e expected received\<rparr>"

text \<open>\<open>z.string().min(1, msg)\<close>\<close>

fun z_string_min1 :: "env \<Rightarrow> string \<Rightarrow> path_elem list \<Rightarrow> jsvalue option \<Rightarrow> ZodIssue list" where
  "z_string_min1 e msg p (Some (JString s)) =
     (if length s < 1 then [\<lparr>issue_path = p, issue_message = msg\<rparr>] else [])"
| "z_string_min1 e msg p v = [invalid_type e p ''string'' v]"

text \<open>\<open>z.string()\<close>\<close>

fun z_string :: "env \<Rightarrow> path_elem list \<Rightarrow> jsvalue option \<Rightarrow> ZodIssue list" where
  "z_string e p (Some (JString s)) = []"
| "z_string e p v = [invalid_type e p ''string'' v]"

text \<open>\<open>z.array(z.string())\<close>: every element is checked, at the path extended by its index.\<close>

fun z_string_elements :: "env \<Rightarrow> path_elem list \<Rightarrow> nat \<Rightarrow> jsvalue list \<Rightarrow> ZodIssue list" where
  "z_string_elements e p i [] = []"
| "z_string_elements e p i (x # xs) =
     z_string e (p @ [Index i]) (Some x) @ z_string_elements e p (Suc i) xs"

fun z_array_string :: "env \<Rightarrow> path_elem list \<Rightarrow> jsvalue option \<Rightarrow> ZodIssue list" where
  "z_array_string e p (Some (JArray xs)) = z_string_elements e p 0 xs"
| "z_array_string e p v = [invalid_type e p ''array'' v]"

text \<open>\<open>z.record(z.string(), z.any())\<close>: any plain object.\<close>

fun z_record_any :: "env \<Rightarrow> path_elem list \<Rightarrow> jsvalue option \<Rightarrow> ZodIssue list" where
  "z_record_any e p (Some (JObject kvs)) = []"
| "z_record_any e p v = [invalid_type e p ''object'' v]"

text \<open>\<open>.optional()\<close>: an absent value passes, any other goes to the inner schema.\<close>

fun z_optional :: "(path_elem list \<Rightarrow> jsvalue option \<Rightarrow> ZodIssue list) \<Rightarrow>
    path_elem list \<Rightarrow> jsvalue option \<Rightarrow> ZodIssue list" where
  "z_optional inner p None = []"
| "z_optional inner p (Some v) = inner p (Some v)"

text \<open>
  \<open>StencilSettingsSchema\<close>: the fields in the order of the declaration, each with its
  schema. Keys that the schema does not name are ignored.
\<close>

definition StencilSettingsSchema ::
    "env \<Rightarrow> (string \<times> (path_elem list \<Rightarrow> jsvalue option \<Rightarrow> ZodIssue list)) list" where
  "StencilSettingsSchema e =
     [(''id'', z_string_min1 e ''Stencil ID is required''),
      (''name'', z_string_min1 e ''Stencil name is required''),
      (''version'', z_string_min1 e ''Version is required''),
      (''type'', z_string_min1 e ''Stencil type is required''),
      (''description'', z_optional (z_string e)),
      (''files'', z_optional (z_array_string e)),
      (''include'', z_optional (z_array_string e)),
      (''extend'', z_optional (z_string e)),
      (''variables'', z_optional (z_record_any e)),
      (''metadata'', z_optional (z_record_any e))]"

text \<open>
  \<open>StencilSettingsSchema.safeParse(settings)\<close>: the issues (\<open>Inl\<close>, never empty) or
  the parsed data (\<open>Inr\<close>), which holds the schema's keys that the input has.
\<close>

definition schema_issues :: "env \<Rightarrow> jsvalue \<Rightarrow> ZodIssue list" where
  "schema_issues e v =
     (case v of
        JObject kvs \<Rightarrow>
          concat (map (\<lambda>(k, check). check [Key k] (map_of kvs k)) (StencilSettingsSchema e))
      | _ \<Rightarrow> [invalid_type e [] ''object'' (Some v)])"

definition schema_data :: "env \<Rightarrow> jsvalue \<Rightarrow> jsvalue" where
  "schema_data e v =
     JObject (concat (map (\<lambda>(k, check). case property v k of None \<Rightarrow> [] | Some x \<Rightarrow> [(k, x)])
       (StencilSettingsSchema e)))"

definition safeParse :: "env \<Rightarrow> jsvalue \<Rightarrow> ZodIssue list + jsvalue" where
  "safeParse e v = (if schema_issues e v = [] then Inr (schema_data e v) else Inl (schema_issues e v))"

subsection \<open>The regular expressions of the strict mode\<close>

text \<open>
  \<open>/^[a-z0-9-_]+$/\<close>: the whole string, at least one character, each a lower-case
  letter, a digit, a hyphen or an underscore.
\<close>

definition id_char :: "char \<Rightarrow> bool" where
  "id_char c =
     (((97::nat) \<le> of_char c \<and> of_char c \<le> (122::nat)) \<or>
      ((48::nat) \<le> of_char c \<and> of_char c \<le> (57::nat)) \<or>
      c = CHR ''-'' \<or> c = CHR ''_'')"

definition id_regex_test :: "string \<Rightarrow> bool" where
  "id_regex_test s = (s \<noteq> [] \<and> list_all id_char s)"

text \<open>
  \<open>/^\d+\.\d+\.\d+/\<close>: a prefix of the string. \<open>\d+\<close> is greedy, and giving a digit
  back never helps, since a dot must follow.
\<close>

definition digit :: "char \<Rightarrow> bool" where
  "digit c = ((48::nat) \<le> of_char c \<and> of_char c \<le> (57::nat))"

definition eat_digits :: "string \<Rightarrow> string option" where
  "eat_digits s = (if takeWhile digit s = [] then None else Some (dropWhile digit s))"

fun eat_dot :: "string \<Rightarrow> string option" where
  "eat_dot [] = None"
| "eat_dot (c # cs) = (if c = CHR ''.'' then Some cs else None)"

definition version_regex_test :: "string \<Rightarrow> bool" where
  "version_regex_test s =
     (case eat_digits s of None \<Rightarrow> False | Some r1 \<Rightarrow>
       (case eat_dot r1 of None \<Rightarrow> False | Some r2 \<Rightarrow>
         (case eat_digits r2 of None \<Rightarrow> False | Some r3 \<Rightarrow>
           (case eat_dot r3 of None \<Rightarrow> False | Some r4 \<Rightarrow>
             eat_digits r4 \<noteq> None))))"

subsection \<open>The engine\<close>

text \<open>\<open>error instanceof Error ? error.message : fallback\<close>\<close>

fun message_or :: "js_exn \<Rightarrow> string \<Rightarrow> string" where
  "message_or (JsError m) fallback = m"
| "message_or NonError fallback = fallback"

definition performStrictValidation ::
    "string \<Rightarrow> jsvalue \<Rightarrow> ValidationResult list \<Rightarrow> ValidationResult list" where
  "performStrictValidation settingsFile settings results =
     (if \<not> is_object settings then results
      else
        let results1 =
              (case property settings ''id'' of
                 Some (JString i) \<Rightarrow>
                   if \<not> id_regex_test i
                   then push results \<lparr>path = settingsFile, type = Warning,
                     message = ''Stencil ID should only contain lowercase letters, numbers, hyphens, and underscores'',
                     details = None\<rparr>
                   else results
               | _ \<Rightarrow> results);
            results2 =
              (case property settings ''version'' of
                 Some (JString v) \<Rightarrow>
                   if \<not> version_regex_test v
                   then push results1 \<lparr>path = settingsFile, type = Warning,
                     message = ''Version should follow semantic versioning format (x.y.z)'',
                     details = None\<rparr>
                   else results1
               | _ \<Rightarrow> results1)
        in
          if \<not> truthy (property settings ''description'')
          then push results2 \<lparr>path = settingsFile, type = Warning,
            message = ''Description is recommended for better documentation'',
            details = None\<rparr>
          else results2)"

text \<open>The finding that \<open>validateSettingsFile\<close> pushes for one issue of the schema.\<close>

definition schema_finding :: "string \<Rightarrow> ZodIssue \<Rightarrow> ValidationResult" where
  "schema_finding settingsFile err =
     \<lparr>path = settingsFile, type = Error,
      message = ''Schema validation failed: '' @
        join_with ''.'' (map path_elem_string (issue_path err)) @ '' - '' @ issue_message err,
      details = None\<rparr>"

definition validateSettingsFile ::
    "env \<Rightarrow> string \<Rightarrow> ValidationResult list \<Rightarrow> ValidateOptions \<Rightarrow> ValidationResult list" where
  "validateSettingsFile e settingsFile results options =
     (case readFileSync e settingsFile of
        Inl ex \<Rightarrow>
          push results \<lparr>path = settingsFile, type = Error,
            message = ''Failed to read stencil settings file'',
            details = Some (message_or ex ''Unknown file reading error'')\<rparr>
      | Inr content \<Rightarrow>
          (case parseYaml e content of
             Inl ex \<Rightarrow>
               push results \<lparr>path = settingsFile, type = Error,
                 message = ''Invalid YAML format'',
                 details = Some (message_or ex ''Unknown YAML parsing error'')\<rparr>
           | Inr settings \<Rightarrow>
               (case safeParse e settings of
                  Inl issues \<Rightarrow>
                    foldl (\<lambda>rs err. push rs (schema_finding settingsFile err)) results issues
                | Inr data \<Rightarrow>
                    push
                      (if strict options = Some True
                       then performStrictValidation settingsFile data results
                       else results)
                      \<lparr>path = settingsFile, type = Info,
                       message = ''Stencil settings file is valid'', details = None\<rparr>)))"

text \<open>One turn of the loop over \<open>settingsObj.files\<close>.\<close>

definition check_file ::
    "env \<Rightarrow> string \<Rightarrow> ValidationResult list \<Rightarrow> jsvalue \<Rightarrow> ValidationResult list" where
  "check_file e p results file =
     (case file of
        JString f \<Rightarrow>
          (let filePath = join e p f in
           if \<not> existsSync e filePath
           then push results \<lparr>path = filePath, type = Error,
             message = ''Referenced file does not exist: '' @ f, details = None\<rparr>
           else push results \<lparr>path = filePath, type = Info,
             message = ''Referenced file exists: '' @ f, details = None\<rparr>)
      | _ \<Rightarrow> results)"

definition validateFileReferences ::
    "env \<Rightarrow> string \<Rightarrow> jsvalue \<Rightarrow> ValidationResult list \<Rightarrow> ValidateOptions \<Rightarrow>
     ValidationResult list" where
  "validateFileReferences e p settings results options =
     (if \<not> is_object settings then results
      else
        let results1 =
              (if truthy (property settings ''files'') \<and> isArray (property settings ''files'')
               then foldl (check_file e p) results (elements (property settings ''files''))
               else results)
        in
          if \<not> truthy (property settings ''files'')
          then
            (let filesDir = join e p ''files'' in
             if existsSync e filesDir \<and> isDirectory e filesDir
             then push results1 \<lparr>path = filesDir, type = Info,
               message = ''Default files/ directory found'', details = None\<rparr>
             else push results1 \<lparr>path = filesDir, type = Warning,
               message = ''No files/ directory found and no explicit files list provided'',
               details = None\<rparr>)
          else results1)"

text \<open>One turn of the loop over \<open>settingsObj.include\<close>.\<close>

definition note_include ::
    "env \<Rightarrow> string \<Rightarrow> ValidationResult list \<Rightarrow> jsvalue \<Rightarrow> ValidationResult list" where
  "note_include e p results inc =
     (case inc of
        JString i \<Rightarrow>
          push results \<lparr>path = join e p ''stencil-settings.yml'', type = Warning,
            message = ''Include reference found: '' @ i @
              '' (cannot validate external references in Phase 1)'',
            details = None\<rparr>
      | _ \<Rightarrow> results)"

definition validateReferenceIntegrity ::
    "env \<Rightarrow> string \<Rightarrow> jsvalue \<Rightarrow> ValidationResult list \<Rightarrow> ValidateOptions \<Rightarrow>
     ValidationResult list" where
  "validateReferenceIntegrity e p settings results options =
     (if \<not> is_object settings then results
      else
        let results1 =
              (case property settings ''extend'' of
                 Some (JString x) \<Rightarrow>
                   if truthy (property settings ''extend'')
                   then push results \<lparr>path = join e p ''stencil-settings.yml'', type = Warning,
                     message = ''Extend reference found: '' @ x @
                       '' (cannot validate external references in Phase 1)'',
                     details = None\<rparr>
                   else results
               | _ \<Rightarrow> results)
        in
          if truthy (property settings ''include'') \<and> isArray (property settings ''include'')
          then foldl (note_include e p) results1 (elements (property settings ''include''))
          else results1)"

text \<open>The parsed document, or \<open>null\<close> when reading or parsing throws.\<close>

definition loadStencilSettings :: "env \<Rightarrow> string \<Rightarrow> jsvalue" where
  "loadStencilSettings e settingsFile =
     (case readFileSync e settingsFile of
        Inl ex \<Rightarrow> JNull
      | Inr content \<Rightarrow> (case parseYaml e content of Inl ex \<Rightarrow> JNull | Inr v \<Rightarrow> v))"

text \<open>\<open>now\<close> is what \<open>new Date().toISOString()\<close> returns when the summary is made.\<close>

definition createSummary ::
    "string \<Rightarrow> string \<Rightarrow> ValidationResult list \<Rightarrow> nat \<Rightarrow> ValidationSummary" where
  "createSummary now p results total_files =
     (let errs = filter (\<lambda>r. type r = Error) results;
          warns = filter (\<lambda>r. type r = Warning) results;
          infos = filter (\<lambda>r. type r = Info) results
      in \<lparr>success = (length errs = 0), summary_path = p, errors = errs, warnings = warns,
          info = infos, totalFiles = total_files, validatedAt = now\<rparr>)"

definition validateStencilDefinition ::
    "env \<Rightarrow> string \<Rightarrow> string \<Rightarrow> ValidateOptions \<Rightarrow> ValidationSummary" where
  "validateStencilDefinition e now p options =
     (if \<not> existsSync e p
      then createSummary now p
        (push [] \<lparr>path = p, type = Error, message = ''Path does not exist'', details = None\<rparr>) 0
      else if \<not> isDirectory e p
      then createSummary now p
        (push [] \<lparr>path = p, type = Error, message = ''Path must be a directory'', details = None\<rparr>) 0
      else
        let settingsFile = join e p ''stencil-settings.yml'' in
        if \<not> existsSync e settingsFile
        then createSummary now p
          (push [] \<lparr>path = settingsFile, type = Error,
             message = ''Required file stencil-settings.yml not found'', details = None\<rparr>) 0
        else
          let results = validateSettingsFile e settingsFile [] options;
              allFiles = glob e p;
              total_files = length allFiles;
              settings = loadStencilSettings e settingsFile
          in
            if truthy (Some settings)
            then createSummary now p
              (validateReferenceIntegrity e p settings
                 (validateFileReferences e p settings results options) options) total_files
            else createSummary now p results total_files)"

definition determineExitCode :: "ValidationSummary \<Rightarrow> string \<Rightarrow> nat" where
  "determineExitCode summary fail_on =
     (if length (errors summary) > 0 then 2
      else if fail_on = ''warn'' \<and> length (warnings summary) > 0 then 1
      else 0)"

text \<open>
  \<open>validateCommand\<close> without its printing. None of the operations above throws past its
  own handler, so the handler of \<open>validateCommand\<close> (exit code 2) has no branch here.
\<close>

definition validateCommand :: "env \<Rightarrow> string \<Rightarrow> string \<Rightarrow> ValidateOptions \<Rightarrow> nat" where
  "validateCommand e now targetPath options =
     (let absolutePath = resolve e (cwd e) targetPath;
          results = validateStencilDefinition e now absolutePath options
      in determineExitCode results (failOn options))"

subsection \<open>Sample environments\<close>

text \<open>
  A directory tree given by its directories and its files (absolute paths, joined with a
  slash), in which every file reads as \<open>content\<close> and the parser answers \<open>parsed\<close>.
  The default message of the schema library is worded as its version 3 words it.
\<close>

fun type_name :: "jsvalue option \<Rightarrow> string" where
  "type_name None = ''undefined''"
| "type_name (Some JNull) = ''null''"
| "type_name (Some (JBool b)) = ''boolean''"
| "type_name (Some (JNumber n)) = (case n of JNaN \<Rightarrow> ''nan'' | _ \<Rightarrow> ''number'')"
| "type_name (Some (JString s)) = ''string''"
| "type_name (Some (JArray xs)) = ''array''"
| "type_name (Some (JObject kvs)) = ''object''"

definition sample_message :: "string \<Rightarrow> jsvalue option \<Rightarrow> string" where
  "sample_message expected received =
     (case received of
        None \<Rightarrow> ''Required''
      | Some v \<Rightarrow> ''Expected '' @ expected @ '', received '' @ type_name received)"

definition sample_env :: "string list \<Rightarrow> string list \<Rightarrow> js_exn + jsvalue \<Rightarrow> env" where
  "sample_env dirs files parsed =
     \<lparr>existsSync = (\<lambda>p. p \<in> set dirs \<or> p \<in> set files),
      isDirectory = (\<lambda>p. p \<in> set dirs),
      readFileSync = (\<lambda>p. if p \<in> set files then Inr ''content'' else Inl (JsError ''ENOENT'')),
      glob = (\<lambda>d. map (drop (Suc (length d))) (filter (\<lambda>f. take (Suc (length d)) f = d @ ''/'') files)),
      parseYaml = (\<lambda>c. parsed),
      join = (\<lambda>a b. a @ ''/'' @ b),
      resolve = (\<lambda>a b. b),
      cwd = ''/'',
      invalid_type_message = sample_message\<rparr>"

definition sample_options :: "bool \<Rightarrow> string \<Rightarrow> ValidateOptions" where
  "sample_options s f = \<lparr>format = ''text'', failOn = f, strict = (if s then Some True else None), ignore = None\<rparr>"

text \<open>
  The four required fields, for the documents of the examples below.
\<close>

definition required_fields :: "(string \<times> jsvalue) list" where
  "required_fields =
     [(''id'', JString ''svc''), (''name'', JString ''Service''),
      (''version'', JString ''1.0.0''), (''type'', JString ''service'')]"

section \<open>Properties\<close>

subsection \<open>Auxiliary facts\<close>

text \<open>A loop that pushes one finding per element appends the image of the list.\<close>

lemma foldl_push: "foldl (\<lambda>rs x. push rs (f x)) rs xs = rs @ map f xs"
  by (induction xs arbitrary: rs) (simp_all add: push_def)

text \<open>When the schema of one field raises no issue.\<close>

lemma z_string_min1_ok:
  "z_string_min1 e msg p v = [] \<longleftrightarrow> (\<exists>s. v = Some (JString s) \<and> s \<noteq> [])"
  by (cases "(e, msg, p, v)" rule: z_string_min1.cases) auto

lemma z_string_ok: "z_string e p v = [] \<longleftrightarrow> (\<exists>s. v = Some (JString s))"
  by (cases "(e, p, v)" rule: z_string.cases) auto

lemma z_string_elements_ok:
  "z_string_elements e p i xs = [] \<longleftrightarrow> (\<exists>fs. xs = map JString fs)"
proof (induction xs arbitrary: i)
  case Nil
  then show ?case by simp
next
  case (Cons x xs)
  show ?case
  proof
    assume "z_string_elements e p i (x # xs) = []"
    then have a: "z_string e (p @ [Index i]) (Some x) = []" and b: "z_string_elements e p (Suc i) xs = []"
      by simp_all
    from a obtain s where "x = JString s" by (auto simp: z_string_ok)
    moreover from b Cons.IH obtain fs where "xs = map JString fs" by auto
    ultimately have "x # xs = map JString (s # fs)" by simp
    then show "\<exists>fs. x # xs = map JString fs" by (rule exI)
  next
    assume "\<exists>fs. x # xs = map JString fs"
    then obtain fs where fs: "x # xs = map JString fs" by (elim exE)
    then obtain s fs' where "fs = s # fs'" "x = JString s" "xs = map JString fs'"
      by (cases fs) auto
    then show "z_string_elements e p i (x # xs) = []"
      using Cons.IH [of "Suc i"] by auto
  qed
qed

lemma z_array_string_ok:
  "z_array_string e p v = [] \<longleftrightarrow> (\<exists>fs. v = Some (JArray (map JString fs)))"
  by (cases "(e, p, v)" rule: z_array_string.cases) (auto simp: z_string_elements_ok)

lemma z_optional_ok: "z_optional inner p v = [] \<longleftrightarrow> v = None \<or> inner p v = []"
  by (cases v) auto

text \<open>The issues of a mapping, field by field, and of any other value.\<close>

lemma schema_issues_object:
  "schema_issues e (JObject kvs) =
     z_string_min1 e ''Stencil ID is required'' [Key ''id''] (map_of kvs ''id'') @
     z_string_min1 e ''Stencil name is required'' [Key ''name''] (map_of kvs ''name'') @
     z_string_min1 e ''Version is required'' [Key ''version''] (map_of kvs ''version'') @
     z_string_min1 e ''Stencil type is required'' [Key ''type''] (map_of kvs ''type'') @
     z_optional (z_string e) [Key ''description''] (map_of kvs ''description'') @
     z_optional (z_array_string e) [Key ''files''] (map_of kvs ''files'') @
     z_optional (z_array_string e) [Key ''include''] (map_of kvs ''include'') @
     z_optional (z_string e) [Key ''extend''] (map_of kvs ''extend'') @
     z_optional (z_record_any e) [Key ''variables''] (map_of kvs ''variables'') @
     z_optional (z_record_any e) [Key ''metadata''] (map_of kvs ''metadata'')"
  by (simp add: schema_issues_def StencilSettingsSchema_def)

lemma schema_issues_not_object:
  "(\<forall>kvs. v \<noteq> JObject kvs) \<Longrightarrow> schema_issues e v = [invalid_type e [] ''object'' (Some v)]"
  by (cases v) (auto simp: schema_issues_def)

lemma schema_valid_object: "schema_issues e v = [] \<Longrightarrow> \<exists>kvs. v = JObject kvs"
  by (cases v) (simp_all add: schema_issues_def)

lemma schema_valid_fields:
  assumes "schema_issues e (JObject kvs) = []"
  shows "\<exists>s. map_of kvs ''id'' = Some (JString s) \<and> s \<noteq> []"
    and "\<exists>s. map_of kvs ''version'' = Some (JString s) \<and> s \<noteq> []"
    and "map_of kvs ''description'' = None \<or> (\<exists>s. map_of kvs ''description'' = Some (JString s))"
    and "map_of kvs ''files'' = None \<or> (\<exists>fs. map_of kvs ''files'' = Some (JArray (map JString fs)))"
    and "map_of kvs ''include'' = None \<or> (\<exists>fs. map_of kvs ''include'' = Some (JArray (map JString fs)))"
    and "map_of kvs ''extend'' = None \<or> (\<exists>s. map_of kvs ''extend'' = Some (JString s))"
  using assms
  by (simp_all add: schema_issues_object z_string_min1_ok z_optional_ok z_string_ok z_array_string_ok)

lemma required_issue:
  assumes "k \<in> set [''id'', ''name'', ''version'', ''type'']" and "map_of kvs k = None"
  shows "\<lparr>issue_path = [Key k], issue_message = invalid_type_message e ''string'' None\<rparr>
    \<in> set (schema_issues e (JObject kvs))"
  using assms by (auto simp: schema_issues_object invalid_type_def)

text \<open>The parsed data has the input's value at every key of the schema.\<close>

lemma schema_data_absent:
  "k \<notin> fst ` set sch \<Longrightarrow>
   map_of (concat (map (\<lambda>(k, check). case m k of None \<Rightarrow> [] | Some x \<Rightarrow> [(k, x)]) sch)) k = None"
  by (induction sch) (auto split: option.splits)

lemma schema_data_lookup:
  "distinct (map fst sch) \<Longrightarrow> k \<in> fst ` set sch \<Longrightarrow>
   map_of (concat (map (\<lambda>(k, check). case m k of None \<Rightarrow> [] | Some x \<Rightarrow> [(k, x)]) sch)) k = m k"
proof (induction sch)
  case Nil
  then show ?case by simp
next
  case (Cons a sch)
  obtain k' c where a: "a = (k', c)" by (cases a)
  show ?case
  proof (cases "k = k'")
    case True
    with Cons.prems a have "k \<notin> fst ` set sch" by auto
    from schema_data_absent [OF this, of m] True a show ?thesis
      by (simp split: option.splits)
  next
    case False
    with Cons a show ?thesis by (auto split: option.splits)
  qed
qed

lemma property_schema_data:
  assumes "k \<in> fst ` set (StencilSettingsSchema e)"
  shows "property (schema_data e (JObject kvs)) k = map_of kvs k"
proof -
  have "distinct (map fst (StencilSettingsSchema e))"
    by (simp add: StencilSettingsSchema_def)
  from schema_data_lookup [OF this assms, of "map_of kvs"] show ?thesis
    by (simp add: schema_data_def)
qed

text \<open>The two loops, over arrays of strings.\<close>

lemma foldl_check_file:
  "foldl (check_file e p) rs (map JString fs) =
     rs @ map (\<lambda>f. if existsSync e (join e p f)
        then \<lparr>path = join e p f, type = Info, message = ''Referenced file exists: '' @ f, details = None\<rparr>
        else \<lparr>path = join e p f, type = Error, message = ''Referenced file does not exist: '' @ f, details = None\<rparr>) fs"
  by (induction fs arbitrary: rs) (simp_all add: check_file_def push_def Let_def)

lemma foldl_note_include:
  "foldl (note_include e p) rs (map JString fs) =
     rs @ map (\<lambda>i. \<lparr>path = join e p ''stencil-settings.yml'', type = Warning,
        message = ''Include reference found: '' @ i @ '' (cannot validate external references in Phase 1)'',
        details = None\<rparr>) fs"
  by (induction fs arbitrary: rs) (simp_all add: note_include_def push_def)

text \<open>The checks after the schema only append to the findings.\<close>

lemma check_file_prefix: "\<exists>zs. check_file e p rs x = rs @ zs"
  by (cases x) (simp_all add: check_file_def push_def Let_def)

lemma foldl_check_file_prefix: "\<exists>ys. foldl (check_file e p) rs xs = rs @ ys"
proof (induction xs arbitrary: rs)
  case Nil
  then show ?case by simp
next
  case (Cons x xs)
  obtain zs where zs: "check_file e p rs x = rs @ zs" using check_file_prefix by blast
  from Cons.IH [of "rs @ zs"] obtain ys where "foldl (check_file e p) (rs @ zs) xs = (rs @ zs) @ ys"
    by blast
  with zs show ?case by simp
qed

lemma note_include_prefix: "\<exists>zs. note_include e p rs x = rs @ zs"
  by (cases x) (simp_all add: note_include_def push_def)

lemma foldl_note_include_prefix: "\<exists>ys. foldl (note_include e p) rs xs = rs @ ys"
proof (induction xs arbitrary: rs)
  case Nil
  then show ?case by simp
next
  case (Cons x xs)
  obtain zs where zs: "note_include e p rs x = rs @ zs" using note_include_prefix by blast
  from Cons.IH [of "rs @ zs"] obtain ys where "foldl (note_include e p) (rs @ zs) xs = (rs @ zs) @ ys"
    by blast
  with zs show ?case by simp
qed

lemma file_references_prefix: "\<exists>ys. validateFileReferences e p s rs options = rs @ ys"
proof -
  obtain ys where ys: "foldl (check_file e p) rs (elements (property s ''files'')) = rs @ ys"
    using foldl_check_file_prefix by blast
  show ?thesis
    by (simp add: validateFileReferences_def Let_def push_def ys)
qed

lemma reference_integrity_prefix: "\<exists>ys. validateReferenceIntegrity e p s rs options = rs @ ys"
proof -
  let ?r1 = "case property s ''extend'' of
                 Some (JString x) \<Rightarrow>
                   if truthy (property s ''extend'')
                   then push rs \<lparr>path = join e p ''stencil-settings.yml'', type = Warning,
                     message = ''Extend reference found: '' @ x @
                       '' (cannot validate external references in Phase 1)'',
                     details = None\<rparr>
                   else rs
               | _ \<Rightarrow> rs"
  have "\<exists>zs. ?r1 = rs @ zs"
    by (simp add: push_def split: option.splits jsvalue.splits)
  then obtain zs where zs: "?r1 = rs @ zs" by (elim exE)
  obtain ys where ys: "foldl (note_include e p) (rs @ zs) (elements (property s ''include'')) =
      (rs @ zs) @ ys"
    using foldl_note_include_prefix by blast
  show ?thesis
    unfolding validateReferenceIntegrity_def Let_def zs by (simp add: ys)
qed

text \<open>The fields of a summary.\<close>

lemma errors_createSummary: "errors (createSummary now p rs n) = filter (\<lambda>r. type r = Error) rs"
  and warnings_createSummary: "warnings (createSummary now p rs n) = filter (\<lambda>r. type r = Warning) rs"
  and info_createSummary: "info (createSummary now p rs n) = filter (\<lambda>r. type r = Info) rs"
  and totalFiles_createSummary: "totalFiles (createSummary now p rs n) = n"
  and success_createSummary: "success (createSummary now p rs n) = (filter (\<lambda>r. type r = Error) rs = [])"
  by (simp_all add: createSummary_def Let_def)

lemma filter_nonempty_image: "filter (\<lambda>r. f r = c) rs \<noteq> [] \<longleftrightarrow> c \<in> f ` set rs"
  by (induction rs) auto

text \<open>
  The two tests agree with the regular expressions read as specifications. The character
  class of the id is the 38 characters it lists.
\<close>

lemma id_char_listed: "list_all id_char ''abcdefghijklmnopqrstuvwxyz0123456789-_''"
  by (simp add: id_char_def)

lemma of_char_mem: "(of_char c :: nat) \<in> of_char ` S \<Longrightarrow> c \<in> S"
  by (auto simp: image_iff)

lemma lower_case_letters:
  assumes "(97::nat) \<le> of_char c" and "of_char c \<le> (122::nat)"
  shows "c \<in> set ''abcdefghijklmnopqrstuvwxyz''"
proof -
  have "{97..122::nat} = of_char ` set ''abcdefghijklmnopqrstuvwxyz''"
    by (simp add: atLeastAtMost_insertL [symmetric])
  moreover from assms have "(of_char c :: nat) \<in> {97..122}" by simp
  ultimately have "(of_char c :: nat) \<in> of_char ` set ''abcdefghijklmnopqrstuvwxyz''"
    by (simp only:)
  then show ?thesis by (rule of_char_mem)
qed

lemma decimal_digits:
  assumes "(48::nat) \<le> of_char c" and "of_char c \<le> (57::nat)"
  shows "c \<in> set ''0123456789''"
proof -
  have "{48..57::nat} = of_char ` set ''0123456789''"
    by (simp add: atLeastAtMost_insertL [symmetric])
  moreover from assms have "(of_char c :: nat) \<in> {48..57}" by simp
  ultimately have "(of_char c :: nat) \<in> of_char ` set ''0123456789''"
    by (simp only:)
  then show ?thesis by (rule of_char_mem)
qed

lemma id_char_iff: "id_char c \<longleftrightarrow> c \<in> set ''abcdefghijklmnopqrstuvwxyz0123456789-_''"
proof
  assume "id_char c"
  then consider "(97::nat) \<le> of_char c \<and> of_char c \<le> (122::nat)"
    | "(48::nat) \<le> of_char c \<and> of_char c \<le> (57::nat)" | "c = CHR ''-''" | "c = CHR ''_''"
    unfolding id_char_def by blast
  then show "c \<in> set ''abcdefghijklmnopqrstuvwxyz0123456789-_''"
  proof cases
    case 1
    then have "c \<in> set ''abcdefghijklmnopqrstuvwxyz''" by (intro lower_case_letters) simp_all
    then show ?thesis by auto
  next
    case 2
    then have "c \<in> set ''0123456789''" by (intro decimal_digits) simp_all
    then show ?thesis by auto
  next
    case 3
    then show ?thesis by simp
  next
    case 4
    then show ?thesis by simp
  qed
next
  assume "c \<in> set ''abcdefghijklmnopqrstuvwxyz0123456789-_''"
  with id_char_listed show "id_char c" unfolding list_all_iff by (rule bspec)
qed

lemma digit_iff: "digit c \<longleftrightarrow> c \<in> set ''0123456789''"
proof
  assume "digit c"
  then show "c \<in> set ''0123456789''" unfolding digit_def by (intro decimal_digits) simp_all
next
  assume "c \<in> set ''0123456789''"
  then show "digit c" by (auto simp: digit_def)
qed

lemma id_regex_test_iff:
  "id_regex_test s \<longleftrightarrow>
     s \<noteq> [] \<and> set s \<subseteq> set ''abcdefghijklmnopqrstuvwxyz0123456789-_''"
  unfolding id_regex_test_def list_all_iff by (auto simp only: id_char_iff)

text \<open>
  The greedy matcher of the version accepts exactly the strings of which some prefix is
  digits, a dot, digits, a dot, digits.
\<close>

lemma eat_digits_SomeD:
  "eat_digits s = Some r \<Longrightarrow> \<exists>a. a \<noteq> [] \<and> list_all digit a \<and> s = a @ r"
proof -
  assume a: "eat_digits s = Some r"
  then have n: "takeWhile digit s \<noteq> []" and r: "r = dropWhile digit s"
    by (auto simp: eat_digits_def split: if_splits)
  have "list_all digit (takeWhile digit s)"
    by (simp add: list_all_iff) (meson set_takeWhileD)
  moreover have "s = takeWhile digit s @ r" using r by simp
  ultimately show ?thesis using n by (intro exI [of _ "takeWhile digit s"]) simp
qed

lemma eat_digits_stop:
  assumes "a \<noteq> []" and "list_all digit a" and "\<not> digit x"
  shows "eat_digits (a @ x # t) = Some (x # t)"
proof -
  from assms(2) have all: "\<And>c. c \<in> set a \<Longrightarrow> digit c" by (simp add: list_all_iff)
  have "takeWhile digit (a @ x # t) = a"
    using all assms(3) by (simp add: takeWhile_append2)
  moreover have "dropWhile digit (a @ x # t) = x # t"
    using all assms(3) by (simp add: dropWhile_append2)
  ultimately show ?thesis using assms(1) by (simp add: eat_digits_def)
qed

lemma eat_digits_some:
  assumes "a \<noteq> []" and "list_all digit a"
  shows "eat_digits (a @ t) \<noteq> None"
proof -
  from assms(2) have all: "\<And>c. c \<in> set a \<Longrightarrow> digit c" by (simp add: list_all_iff)
  have "takeWhile digit (a @ t) = a @ takeWhile digit t"
    using all by (simp add: takeWhile_append2)
  with assms(1) show ?thesis by (simp add: eat_digits_def)
qed

lemma eat_dot_Some: "eat_dot r = Some t \<longleftrightarrow> r = CHR ''.'' # t"
  by (cases r) auto

lemma dot_not_digit: "\<not> digit (CHR ''.'')"
  by (simp add: digit_def)

lemma version_regex_test_iff:
  "version_regex_test s \<longleftrightarrow>
     (\<exists>a b c r. s = a @ ''.'' @ b @ ''.'' @ c @ r \<and>
        a \<noteq> [] \<and> list_all digit a \<and> b \<noteq> [] \<and> list_all digit b \<and>
        c \<noteq> [] \<and> list_all digit c)"
proof
  assume "version_regex_test s"
  then obtain r1 r2 r3 r4 r5 where e1: "eat_digits s = Some r1" and d1: "eat_dot r1 = Some r2"
    and e2: "eat_digits r2 = Some r3" and d2: "eat_dot r3 = Some r4"
    and e3: "eat_digits r4 = Some r5"
    by (auto simp: version_regex_test_def split: option.splits)
  from eat_digits_SomeD [OF e1] obtain a where a: "a \<noteq> []" "list_all digit a" "s = a @ r1"
    by auto
  from eat_digits_SomeD [OF e2] obtain b where b: "b \<noteq> []" "list_all digit b" "r2 = b @ r3"
    by auto
  from eat_digits_SomeD [OF e3] obtain c where c: "c \<noteq> []" "list_all digit c" "r4 = c @ r5"
    by auto
  from d1 d2 have "r1 = CHR ''.'' # r2" "r3 = CHR ''.'' # r4" by (simp_all add: eat_dot_Some)
  with a b c have "s = a @ ''.'' @ b @ ''.'' @ c @ r5" by simp
  with a b c show "\<exists>a b c r. s = a @ ''.'' @ b @ ''.'' @ c @ r \<and>
        a \<noteq> [] \<and> list_all digit a \<and> b \<noteq> [] \<and> list_all digit b \<and>
        c \<noteq> [] \<and> list_all digit c"
    by (intro exI [of _ a] exI [of _ b] exI [of _ c] exI [of _ r5]) simp
next
  assume "\<exists>a b c r. s = a @ ''.'' @ b @ ''.'' @ c @ r \<and>
        a \<noteq> [] \<and> list_all digit a \<and> b \<noteq> [] \<and> list_all digit b \<and>
        c \<noteq> [] \<and> list_all digit c"
  then obtain a b c r where s: "s = a @ ''.'' @ b @ ''.'' @ c @ r"
    and a: "a \<noteq> []" "list_all digit a" and b: "b \<noteq> []" "list_all digit b"
    and c: "c \<noteq> []" "list_all digit c"
    by (elim exE conjE)
  have e1: "eat_digits s = Some (CHR ''.'' # b @ ''.'' @ c @ r)"
    unfolding s using eat_digits_stop [OF a dot_not_digit] by simp
  have e2: "eat_digits (b @ CHR ''.'' # c @ r) = Some (CHR ''.'' # c @ r)"
    using b dot_not_digit by (rule eat_digits_stop)
  from eat_digits_some [OF c] obtain r5 where e3: "eat_digits (c @ r) = Some r5" by auto
  show "version_regex_test s"
    by (simp add: version_regex_test_def e1 e2 e3)
qed

subsection \<open>Schema errors and the later checks\<close>

text \<open>
  C1. The claim is that a run whose schema validation reports an error runs neither the
  reference checker nor the cross-reference reporter. The module guards both with
  \<open>if (settings)\<close>, where \<open>settings\<close> is the document parsed a second time, under the
  comment "Validate file references if settings are valid"; a document that parses to a
  mapping is truthy whatever the schema says. Here a document that holds only \<open>name\<close>
  gets three schema errors and, from the reference checker, the warning about the
  \<open>files/\<close> directory.
\<close>

theorem schema_errors_do_not_stop_reference_checks:
  "validateStencilDefinition
     (sample_env [''/r''] [''/r/stencil-settings.yml''] (Inr (JObject [(''name'', JString ''x'')])))
     ''t'' ''/r'' (sample_options False ''error'') =
   \<lparr>success = False, summary_path = ''/r'',
    errors =
      [\<lparr>path = ''/r/stencil-settings.yml'', type = Error,
         message = ''Schema validation failed: id - Required'', details = None\<rparr>,
       \<lparr>path = ''/r/stencil-settings.yml'', type = Error,
         message = ''Schema validation failed: version - Required'', details = None\<rparr>,
       \<lparr>path = ''/r/stencil-settings.yml'', type = Error,
         message = ''Schema validation failed: type - Required'', details = None\<rparr>],
    warnings =
      [\<lparr>path = ''/r/files'', type = Warning,
         message = ''No files/ directory found and no explicit files list provided'',
         details = None\<rparr>],
    info = [], totalFiles = 1, validatedAt = ''t''\<rparr>"
proof -
  let ?d = "JObject [(''name'', JString ''x'')]"
  let ?e = "sample_env [''/r''] [''/r/stencil-settings.yml''] (Inr ?d)"
  let ?o = "sample_options False ''error''"
  have i: "schema_issues ?e ?d =
      [\<lparr>issue_path = [Key ''id''], issue_message = ''Required''\<rparr>,
       \<lparr>issue_path = [Key ''version''], issue_message = ''Required''\<rparr>,
       \<lparr>issue_path = [Key ''type''], issue_message = ''Required''\<rparr>]"
    by (simp add: schema_issues_object invalid_type_def sample_env_def sample_message_def)
  have rd: "readFileSync ?e ''/r/stencil-settings.yml'' = Inr ''content''"
    "parseYaml ?e ''content'' = Inr ?d"
    by (simp_all add: sample_env_def)
  have s: "validateSettingsFile ?e ''/r/stencil-settings.yml'' [] ?o =
      [\<lparr>path = ''/r/stencil-settings.yml'', type = Error,
         message = ''Schema validation failed: id - Required'', details = None\<rparr>,
       \<lparr>path = ''/r/stencil-settings.yml'', type = Error,
         message = ''Schema validation failed: version - Required'', details = None\<rparr>,
       \<lparr>path = ''/r/stencil-settings.yml'', type = Error,
         message = ''Schema validation failed: type - Required'', details = None\<rparr>]"
    by (simp add: validateSettingsFile_def rd safeParse_def i foldl_push schema_finding_def)
  have l: "loadStencilSettings ?e ''/r/stencil-settings.yml'' = ?d"
    by (simp add: loadStencilSettings_def rd)
  have j: "join ?e ''/r'' ''stencil-settings.yml'' = ''/r/stencil-settings.yml''"
    "join ?e ''/r'' ''files'' = ''/r/files''"
    by (simp_all add: sample_env_def)
  have x: "existsSync ?e ''/r''" "isDirectory ?e ''/r''" "existsSync ?e ''/r/stencil-settings.yml''"
    "\<not> existsSync ?e ''/r/files''" "glob ?e ''/r'' = [''stencil-settings.yml'']"
    by (simp_all add: sample_env_def)
  show ?thesis
    by (simp add: validateStencilDefinition_def Let_def j x s l validateFileReferences_def
        validateReferenceIntegrity_def push_def createSummary_def)
qed

subsection \<open>The exit code\<close>

text \<open>
  C2. The exit code is 2 if a finding of severity error exists; otherwise 1 if
  \<open>failOn\<close> is \<open>warn\<close> and a finding of severity warning exists; otherwise 0. The first
  equation is about the summary of any list of findings, the second about a whole run of
  \<open>validateCommand\<close>. With any other \<open>failOn\<close> (the default \<open>error\<close> among them) and
  no error, the code is 0 whatever the warnings.
\<close>

theorem exit_code_policy:
  "determineExitCode (createSummary now p rs n) fail_on =
     (if Error \<in> type ` set rs then 2
      else if fail_on = ''warn'' \<and> Warning \<in> type ` set rs then 1
      else 0) \<and>
   validateCommand e now target options =
     (if errors (validateStencilDefinition e now (resolve e (cwd e) target) options) \<noteq> [] then 2
      else if failOn options = ''warn'' \<and>
        warnings (validateStencilDefinition e now (resolve e (cwd e) target) options) \<noteq> [] then 1
      else 0)"
proof
  have e: "length (errors (createSummary now p rs n)) > 0 \<longleftrightarrow> Error \<in> type ` set rs"
    by (simp add: errors_createSummary filter_nonempty_image [symmetric])
  have w: "length (warnings (createSummary now p rs n)) > 0 \<longleftrightarrow> Warning \<in> type ` set rs"
    by (simp add: warnings_createSummary filter_nonempty_image [symmetric])
  show "determineExitCode (createSummary now p rs n) fail_on =
     (if Error \<in> type ` set rs then 2
      else if fail_on = ''warn'' \<and> Warning \<in> type ` set rs then 1
      else 0)"
    unfolding determineExitCode_def e w by simp
next
  show "validateCommand e now target options =
     (if errors (validateStencilDefinition e now (resolve e (cwd e) target) options) \<noteq> [] then 2
      else if failOn options = ''warn'' \<and>
        warnings (validateStencilDefinition e now (resolve e (cwd e) target) options) \<noteq> [] then 1
      else 0)"
    by (simp add: validateCommand_def determineExitCode_def Let_def)
qed

subsection \<open>The file count\<close>

text \<open>
  C3, amended. \<open>totalFiles\<close> is the number of files that \<open>glob\<close> lists under the root
  in every run in which the root exists, is a directory and holds
  \<open>stencil-settings.yml\<close>, whatever happens to the document afterwards (it may fail to
  be read, to parse or to satisfy the schema); in every other run it is 0.
\<close>

theorem total_files_counted:
  "totalFiles (validateStencilDefinition e now p options) =
     (if existsSync e p \<and> isDirectory e p \<and> existsSync e (join e p ''stencil-settings.yml'')
      then length (glob e p) else 0)"
  by (simp add: validateStencilDefinition_def totalFiles_createSummary Let_def)

text \<open>A document that does not parse, in a directory of two files.\<close>

theorem total_files_counted_witness:
  "parseYaml (sample_env [''/r''] [''/r/stencil-settings.yml'', ''/r/files/a.txt'']
      (Inl (JsError ''bad indentation''))) ''content'' = Inl (JsError ''bad indentation'') \<and>
   glob (sample_env [''/r''] [''/r/stencil-settings.yml'', ''/r/files/a.txt'']
      (Inl (JsError ''bad indentation''))) ''/r'' = [''stencil-settings.yml'', ''files/a.txt''] \<and>
   totalFiles (validateStencilDefinition
     (sample_env [''/r''] [''/r/stencil-settings.yml'', ''/r/files/a.txt'']
        (Inl (JsError ''bad indentation''))) ''t'' ''/r'' (sample_options False ''error'')) = 2"
  using total_files_counted [of
     "sample_env [''/r''] [''/r/stencil-settings.yml'', ''/r/files/a.txt'']
        (Inl (JsError ''bad indentation''))" "''t''" "''/r''" "sample_options False ''error''"]
  by (simp add: sample_env_def)

text \<open>
  As C3 is written it fails: a root that exists, is a directory and holds one file, but no
  \<open>stencil-settings.yml\<close>, is reported with \<open>totalFiles = 0\<close>.
\<close>

theorem total_files_zero_without_settings_counterexample:
  "existsSync (sample_env [''/r''] [''/r/README.md''] (Inr JNull)) ''/r'' \<and>
   isDirectory (sample_env [''/r''] [''/r/README.md''] (Inr JNull)) ''/r'' \<and>
   glob (sample_env [''/r''] [''/r/README.md''] (Inr JNull)) ''/r'' = [''README.md''] \<and>
   totalFiles (validateStencilDefinition (sample_env [''/r''] [''/r/README.md''] (Inr JNull))
     ''t'' ''/r'' (sample_options False ''error'')) = 0"
  by (simp add: sample_env_def validateStencilDefinition_def createSummary_def push_def)

subsection \<open>Fatal preconditions\<close>

text \<open>
  C4. When the root does not exist, or is not a directory, or holds no
  \<open>stencil-settings.yml\<close>, or the document does not parse, the summary has exactly one
  finding of severity error and none of severity warning or info. On a parse failure the
  details of that finding are the message of the thrown error (and a fixed text if the
  parser throws something that is not an \<open>Error\<close>).
\<close>

theorem fatal_short_circuit:
  "(\<not> existsSync e p \<longrightarrow>
      errors (validateStencilDefinition e now p options) =
        [\<lparr>path = p, type = Error, message = ''Path does not exist'', details = None\<rparr>] \<and>
      warnings (validateStencilDefinition e now p options) = [] \<and>
      info (validateStencilDefinition e now p options) = []) \<and>
   (existsSync e p \<and> \<not> isDirectory e p \<longrightarrow>
      errors (validateStencilDefinition e now p options) =
        [\<lparr>path = p, type = Error, message = ''Path must be a directory'', details = None\<rparr>] \<and>
      warnings (validateStencilDefinition e now p options) = [] \<and>
      info (validateStencilDefinition e now p options) = []) \<and>
   (existsSync e p \<and> isDirectory e p \<and> \<not> existsSync e (join e p ''stencil-settings.yml'') \<longrightarrow>
      errors (validateStencilDefinition e now p options) =
        [\<lparr>path = join e p ''stencil-settings.yml'', type = Error,
          message = ''Required file stencil-settings.yml not found'', details = None\<rparr>] \<and>
      warnings (validateStencilDefinition e now p options) = [] \<and>
      info (validateStencilDefinition e now p options) = []) \<and>
   (existsSync e p \<and> isDirectory e p \<and> existsSync e (join e p ''stencil-settings.yml'') \<and>
    readFileSync e (join e p ''stencil-settings.yml'') = Inr content \<and>
    parseYaml e content = Inl ex \<longrightarrow>
      errors (validateStencilDefinition e now p options) =
        [\<lparr>path = join e p ''stencil-settings.yml'', type = Error,
          message = ''Invalid YAML format'',
          details = Some (case ex of JsError m \<Rightarrow> m | NonError \<Rightarrow> ''Unknown YAML parsing error'')\<rparr>] \<and>
      warnings (validateStencilDefinition e now p options) = [] \<and>
      info (validateStencilDefinition e now p options) = [])"
proof (intro conjI impI)
  assume "\<not> existsSync e p"
  then show "errors (validateStencilDefinition e now p options) =
        [\<lparr>path = p, type = Error, message = ''Path does not exist'', details = None\<rparr>]"
    and "warnings (validateStencilDefinition e now p options) = []"
    and "info (validateStencilDefinition e now p options) = []"
    by (simp_all add: validateStencilDefinition_def createSummary_def push_def)
next
  assume "existsSync e p \<and> \<not> isDirectory e p"
  then show "errors (validateStencilDefinition e now p options) =
        [\<lparr>path = p, type = Error, message = ''Path must be a directory'', details = None\<rparr>]"
    and "warnings (validateStencilDefinition e now p options) = []"
    and "info (validateStencilDefinition e now p options) = []"
    by (simp_all add: validateStencilDefinition_def createSummary_def push_def)
next
  assume "existsSync e p \<and> isDirectory e p \<and> \<not> existsSync e (join e p ''stencil-settings.yml'')"
  then show "errors (validateStencilDefinition e now p options) =
        [\<lparr>path = join e p ''stencil-settings.yml'', type = Error,
          message = ''Required file stencil-settings.yml not found'', details = None\<rparr>]"
    and "warnings (validateStencilDefinition e now p options) = []"
    and "info (validateStencilDefinition e now p options) = []"
    by (simp_all add: validateStencilDefinition_def createSummary_def push_def)
next
  assume a: "existsSync e p \<and> isDirectory e p \<and> existsSync e (join e p ''stencil-settings.yml'') \<and>
    readFileSync e (join e p ''stencil-settings.yml'') = Inr content \<and>
    parseYaml e content = Inl ex"
  have m: "message_or ex d = (case ex of JsError m \<Rightarrow> m | NonError \<Rightarrow> d)" for d
    by (cases ex) simp_all
  from a have r: "validateSettingsFile e (join e p ''stencil-settings.yml'') [] options =
      [\<lparr>path = join e p ''stencil-settings.yml'', type = Error,
          message = ''Invalid YAML format'',
          details = Some (case ex of JsError m \<Rightarrow> m | NonError \<Rightarrow> ''Unknown YAML parsing error'')\<rparr>]"
    by (simp add: validateSettingsFile_def push_def m)
  from a have l: "loadStencilSettings e (join e p ''stencil-settings.yml'') = JNull"
    by (simp add: loadStencilSettings_def)
  from a show "errors (validateStencilDefinition e now p options) =
        [\<lparr>path = join e p ''stencil-settings.yml'', type = Error,
          message = ''Invalid YAML format'',
          details = Some (case ex of JsError m \<Rightarrow> m | NonError \<Rightarrow> ''Unknown YAML parsing error'')\<rparr>]"
    and "warnings (validateStencilDefinition e now p options) = []"
    and "info (validateStencilDefinition e now p options) = []"
    by (simp_all add: validateStencilDefinition_def createSummary_def r l)
qed

text \<open>One directory tree for each of the four cases.\<close>

theorem fatal_short_circuit_witness:
  "(\<not> existsSync (sample_env [] [] (Inr JNull)) ''/r'' \<and>
    errors (validateStencilDefinition (sample_env [] [] (Inr JNull)) ''t'' ''/r''
        (sample_options True ''warn'')) =
      [\<lparr>path = ''/r'', type = Error, message = ''Path does not exist'', details = None\<rparr>] \<and>
    warnings (validateStencilDefinition (sample_env [] [] (Inr JNull)) ''t'' ''/r''
        (sample_options True ''warn'')) = [] \<and>
    info (validateStencilDefinition (sample_env [] [] (Inr JNull)) ''t'' ''/r''
        (sample_options True ''warn'')) = []) \<and>
   (existsSync (sample_env [] [''/r''] (Inr JNull)) ''/r'' \<and>
    \<not> isDirectory (sample_env [] [''/r''] (Inr JNull)) ''/r'' \<and>
    errors (validateStencilDefinition (sample_env [] [''/r''] (Inr JNull)) ''t'' ''/r''
        (sample_options True ''warn'')) =
      [\<lparr>path = ''/r'', type = Error, message = ''Path must be a directory'', details = None\<rparr>] \<and>
    warnings (validateStencilDefinition (sample_env [] [''/r''] (Inr JNull)) ''t'' ''/r''
        (sample_options True ''warn'')) = [] \<and>
    info (validateStencilDefinition (sample_env [] [''/r''] (Inr JNull)) ''t'' ''/r''
        (sample_options True ''warn'')) = []) \<and>
   (existsSync (sample_env [''/r''] [''/r/README.md''] (Inr JNull)) ''/r'' \<and>
    isDirectory (sample_env [''/r''] [''/r/README.md''] (Inr JNull)) ''/r'' \<and>
    \<not> existsSync (sample_env [''/r''] [''/r/README.md''] (Inr JNull)) ''/r/stencil-settings.yml'' \<and>
    errors (validateStencilDefinition (sample_env [''/r''] [''/r/README.md''] (Inr JNull)) ''t'' ''/r''
        (sample_options True ''warn'')) =
      [\<lparr>path = ''/r/stencil-settings.yml'', type = Error,
        message = ''Required file stencil-settings.yml not found'', details = None\<rparr>] \<and>
    warnings (validateStencilDefinition (sample_env [''/r''] [''/r/README.md''] (Inr JNull)) ''t'' ''/r''
        (sample_options True ''warn'')) = [] \<and>
    info (validateStencilDefinition (sample_env [''/r''] [''/r/README.md''] (Inr JNull)) ''t'' ''/r''
        (sample_options True ''warn'')) = []) \<and>
   (readFileSync (sample_env [''/r''] [''/r/stencil-settings.yml''] (Inl (JsError ''bad indentation'')))
      ''/r/stencil-settings.yml'' = Inr ''content'' \<and>
    parseYaml (sample_env [''/r''] [''/r/stencil-settings.yml''] (Inl (JsError ''bad indentation'')))
      ''content'' = Inl (JsError ''bad indentation'') \<and>
    errors (validateStencilDefinition
        (sample_env [''/r''] [''/r/stencil-settings.yml''] (Inl (JsError ''bad indentation'')))
        ''t'' ''/r'' (sample_options True ''warn'')) =
      [\<lparr>path = ''/r/stencil-settings.yml'', type = Error, message = ''Invalid YAML format'',
        details = Some ''bad indentation''\<rparr>] \<and>
    warnings (validateStencilDefinition
        (sample_env [''/r''] [''/r/stencil-settings.yml''] (Inl (JsError ''bad indentation'')))
        ''t'' ''/r'' (sample_options True ''warn'')) = [] \<and>
    info (validateStencilDefinition
        (sample_env [''/r''] [''/r/stencil-settings.yml''] (Inl (JsError ''bad indentation'')))
        ''t'' ''/r'' (sample_options True ''warn'')) = [])"
proof (intro conjI)
  let ?o = "sample_options True ''warn''"
  let ?e1 = "sample_env [] [] (Inr JNull)"
  have h1: "\<not> existsSync ?e1 ''/r''" by (simp add: sample_env_def)
  note t1 = fatal_short_circuit [of ?e1 "''/r''" "''t''" ?o, THEN conjunct1, rule_format, OF h1]
  show "\<not> existsSync ?e1 ''/r''" by (rule h1)
  show "errors (validateStencilDefinition ?e1 ''t'' ''/r'' ?o) =
      [\<lparr>path = ''/r'', type = Error, message = ''Path does not exist'', details = None\<rparr>]"
    and "warnings (validateStencilDefinition ?e1 ''t'' ''/r'' ?o) = []"
    and "info (validateStencilDefinition ?e1 ''t'' ''/r'' ?o) = []"
    using t1 by simp_all
next
  let ?o = "sample_options True ''warn''"
  let ?e2 = "sample_env [] [''/r''] (Inr JNull)"
  have h2: "existsSync ?e2 ''/r'' \<and> \<not> isDirectory ?e2 ''/r''" by (simp add: sample_env_def)
  note t2 = fatal_short_circuit [of ?e2 "''/r''" "''t''" ?o, THEN conjunct2, THEN conjunct1,
    rule_format, OF h2]
  show "existsSync ?e2 ''/r''" and "\<not> isDirectory ?e2 ''/r''" using h2 by simp_all
  show "errors (validateStencilDefinition ?e2 ''t'' ''/r'' ?o) =
      [\<lparr>path = ''/r'', type = Error, message = ''Path must be a directory'', details = None\<rparr>]"
    and "warnings (validateStencilDefinition ?e2 ''t'' ''/r'' ?o) = []"
    and "info (validateStencilDefinition ?e2 ''t'' ''/r'' ?o) = []"
    using t2 by simp_all
next
  let ?o = "sample_options True ''warn''"
  let ?e3 = "sample_env [''/r''] [''/r/README.md''] (Inr JNull)"
  have j: "join ?e3 ''/r'' ''stencil-settings.yml'' = ''/r/stencil-settings.yml''"
    by (simp add: sample_env_def)
  have h3: "existsSync ?e3 ''/r'' \<and> isDirectory ?e3 ''/r'' \<and>
      \<not> existsSync ?e3 (join ?e3 ''/r'' ''stencil-settings.yml'')"
    by (simp add: sample_env_def)
  note t3 = fatal_short_circuit [of ?e3 "''/r''" "''t''" ?o, THEN conjunct2, THEN conjunct2,
    THEN conjunct1, rule_format, OF h3]
  show "existsSync ?e3 ''/r''" and "isDirectory ?e3 ''/r''"
    and "\<not> existsSync ?e3 ''/r/stencil-settings.yml''"
    using h3 unfolding j by simp_all
  show "errors (validateStencilDefinition ?e3 ''t'' ''/r'' ?o) =
      [\<lparr>path = ''/r/stencil-settings.yml'', type = Error,
        message = ''Required file stencil-settings.yml not found'', details = None\<rparr>]"
    and "warnings (validateStencilDefinition ?e3 ''t'' ''/r'' ?o) = []"
    and "info (validateStencilDefinition ?e3 ''t'' ''/r'' ?o) = []"
    using t3 unfolding j by simp_all
next
  let ?o = "sample_options True ''warn''"
  let ?e4 = "sample_env [''/r''] [''/r/stencil-settings.yml''] (Inl (JsError ''bad indentation''))"
  have j: "join ?e4 ''/r'' ''stencil-settings.yml'' = ''/r/stencil-settings.yml''"
    by (simp add: sample_env_def)
  have h4: "existsSync ?e4 ''/r'' \<and> isDirectory ?e4 ''/r'' \<and>
      existsSync ?e4 (join ?e4 ''/r'' ''stencil-settings.yml'') \<and>
      readFileSync ?e4 (join ?e4 ''/r'' ''stencil-settings.yml'') = Inr ''content'' \<and>
      parseYaml ?e4 ''content'' = Inl (JsError ''bad indentation'')"
    by (simp add: sample_env_def)
  note t4 = fatal_short_circuit [of ?e4 "''/r''" "''t''" ?o "''content''" "JsError ''bad indentation''",
    THEN conjunct2, THEN conjunct2, THEN conjunct2, rule_format, OF h4]
  show "readFileSync ?e4 ''/r/stencil-settings.yml'' = Inr ''content''"
    and "parseYaml ?e4 ''content'' = Inl (JsError ''bad indentation'')"
    using h4 unfolding j by simp_all
  show "errors (validateStencilDefinition ?e4 ''t'' ''/r'' ?o) =
      [\<lparr>path = ''/r/stencil-settings.yml'', type = Error, message = ''Invalid YAML format'',
        details = Some ''bad indentation''\<rparr>]"
    and "warnings (validateStencilDefinition ?e4 ''t'' ''/r'' ?o) = []"
    and "info (validateStencilDefinition ?e4 ''t'' ''/r'' ?o) = []"
    using t4 unfolding j by simp_all
qed

subsection \<open>The reference checker\<close>

text \<open>
  C5. In a schema-valid document whose \<open>files\<close> is a sequence, every entry is a
  string, and \<open>validateFileReferences\<close> adds exactly one finding per entry, in the order
  of the declaration: an info finding if the entry joined to the root exists, an error
  finding if it does not. The error findings are therefore exactly one per missing entry,
  in that order. (The statement also covers the empty sequence.)
\<close>

theorem declared_files_checked_in_order:
  assumes "schema_issues e settings = []" and "property settings ''files'' = Some (JArray xs)"
  shows "\<exists>fs. xs = map JString fs \<and>
     validateFileReferences e p settings results options =
       results @ map (\<lambda>f.
         if existsSync e (join e p f)
         then \<lparr>path = join e p f, type = Info,
           message = ''Referenced file exists: '' @ f, details = None\<rparr>
         else \<lparr>path = join e p f, type = Error,
           message = ''Referenced file does not exist: '' @ f, details = None\<rparr>) fs \<and>
     filter (\<lambda>r. type r = Error) (validateFileReferences e p settings [] options) =
       map (\<lambda>f. \<lparr>path = join e p f, type = Error,
           message = ''Referenced file does not exist: '' @ f, details = None\<rparr>)
         (filter (\<lambda>f. \<not> existsSync e (join e p f)) fs)"
proof -
  let ?finding = "\<lambda>f.
         if existsSync e (join e p f)
         then \<lparr>path = join e p f, type = Info,
           message = ''Referenced file exists: '' @ f, details = None\<rparr>
         else \<lparr>path = join e p f, type = Error,
           message = ''Referenced file does not exist: '' @ f, details = None\<rparr>"
  from assms(1) obtain kvs where kvs: "settings = JObject kvs"
    using schema_valid_object by blast
  from assms kvs schema_valid_fields(4) [of e kvs] obtain fs where fs: "xs = map JString fs"
    by auto
  have run: "validateFileReferences e p settings rs options = rs @ map ?finding fs" for rs
    using assms(2) kvs fs by (simp add: validateFileReferences_def foldl_check_file)
  have sel: "filter (\<lambda>r. type r = Error) (map ?finding gs) =
       map (\<lambda>f. \<lparr>path = join e p f, type = Error,
           message = ''Referenced file does not exist: '' @ f, details = None\<rparr>)
         (filter (\<lambda>f. \<not> existsSync e (join e p f)) gs)" for gs
    by (induction gs) simp_all
  show ?thesis
  proof (intro exI conjI)
    show "xs = map JString fs" by (rule fs)
    show "validateFileReferences e p settings results options = results @ map ?finding fs"
      by (rule run)
    show "filter (\<lambda>r. type r = Error) (validateFileReferences e p settings [] options) =
       map (\<lambda>f. \<lparr>path = join e p f, type = Error,
           message = ''Referenced file does not exist: '' @ f, details = None\<rparr>)
         (filter (\<lambda>f. \<not> existsSync e (join e p f)) fs)"
      unfolding run [of "[]"] append_Nil by (rule sel)
  qed
qed

text \<open>Two declared files, of which the first exists.\<close>

theorem declared_files_checked_in_order_witness:
  "schema_issues (sample_env [''/r''] [''/r/stencil-settings.yml'', ''/r/files/a.txt''] (Inr JNull))
     (JObject (required_fields @
        [(''files'', JArray [JString ''files/a.txt'', JString ''files/b.txt''])])) = [] \<and>
   property (JObject (required_fields @
        [(''files'', JArray [JString ''files/a.txt'', JString ''files/b.txt''])])) ''files'' =
     Some (JArray [JString ''files/a.txt'', JString ''files/b.txt'']) \<and>
   validateFileReferences
     (sample_env [''/r''] [''/r/stencil-settings.yml'', ''/r/files/a.txt''] (Inr JNull)) ''/r''
     (JObject (required_fields @
        [(''files'', JArray [JString ''files/a.txt'', JString ''files/b.txt''])])) []
     (sample_options False ''error'') =
     [\<lparr>path = ''/r/files/a.txt'', type = Info,
        message = ''Referenced file exists: files/a.txt'', details = None\<rparr>,
      \<lparr>path = ''/r/files/b.txt'', type = Error,
        message = ''Referenced file does not exist: files/b.txt'', details = None\<rparr>]"
proof -
  let ?e = "sample_env [''/r''] [''/r/stencil-settings.yml'', ''/r/files/a.txt''] (Inr JNull)"
  let ?d = "JObject (required_fields @
        [(''files'', JArray [JString ''files/a.txt'', JString ''files/b.txt''])])"
  have h1: "schema_issues ?e ?d = []"
    by (simp add: schema_issues_object required_fields_def)
  have h2: "property ?d ''files'' = Some (JArray [JString ''files/a.txt'', JString ''files/b.txt''])"
    by (simp add: required_fields_def)
  from declared_files_checked_in_order [OF h1 h2, of "''/r''" "[]" "sample_options False ''error''"]
  obtain fs where a: "[JString ''files/a.txt'', JString ''files/b.txt''] = map JString fs"
    and b: "validateFileReferences ?e ''/r'' ?d [] (sample_options False ''error'') =
       [] @ map (\<lambda>f.
         if existsSync ?e (join ?e ''/r'' f)
         then \<lparr>path = join ?e ''/r'' f, type = Info,
           message = ''Referenced file exists: '' @ f, details = None\<rparr>
         else \<lparr>path = join ?e ''/r'' f, type = Error,
           message = ''Referenced file does not exist: '' @ f, details = None\<rparr>) fs"
    by (elim exE conjE)
  from a have "fs = [''files/a.txt'', ''files/b.txt'']"
    by (auto simp: Cons_eq_map_conv)
  with b have "validateFileReferences ?e ''/r'' ?d [] (sample_options False ''error'') =
     [\<lparr>path = ''/r/files/a.txt'', type = Info,
        message = ''Referenced file exists: files/a.txt'', details = None\<rparr>,
      \<lparr>path = ''/r/files/b.txt'', type = Error,
        message = ''Referenced file does not exist: files/b.txt'', details = None\<rparr>]"
    by (simp add: sample_env_def)
  with h1 h2 show ?thesis by (intro conjI)
qed

text \<open>
  C10. When \<open>files\<close> is present and is the empty sequence, \<open>validateFileReferences\<close>
  adds no finding: there is no file to report, and because an array is truthy the check of
  the \<open>files/\<close> directory is skipped. This holds for every document with such a
  \<open>files\<close>, the schema-valid ones among them.
\<close>

theorem empty_files_no_findings:
  assumes "property settings ''files'' = Some (JArray [])"
  shows "validateFileReferences e p settings results options = results"
proof -
  from assms obtain kvs where "settings = JObject kvs" by (cases settings) simp_all
  with assms show ?thesis by (simp add: validateFileReferences_def)
qed

text \<open>A schema-valid document with \<open>files: []\<close>.\<close>

theorem empty_files_no_findings_witness:
  "property (JObject (required_fields @ [(''files'', JArray [])])) ''files'' = Some (JArray []) \<and>
   schema_issues (sample_env [''/r''] [''/r/stencil-settings.yml''] (Inr JNull))
     (JObject (required_fields @ [(''files'', JArray [])])) = [] \<and>
   validateFileReferences (sample_env [''/r''] [''/r/stencil-settings.yml''] (Inr JNull)) ''/r''
     (JObject (required_fields @ [(''files'', JArray [])])) [] (sample_options False ''error'') = []"
proof -
  have h: "property (JObject (required_fields @ [(''files'', JArray [])])) ''files'' = Some (JArray [])"
    by (simp add: required_fields_def)
  have v: "schema_issues (sample_env [''/r''] [''/r/stencil-settings.yml''] (Inr JNull))
     (JObject (required_fields @ [(''files'', JArray [])])) = []"
    by (simp add: schema_issues_object required_fields_def)
  show ?thesis using h v empty_files_no_findings [OF h] by simp
qed

subsection \<open>The cross-reference reporter\<close>

text \<open>Its findings are warnings, and of the environment it uses \<open>join\<close> only.\<close>

lemma note_include_warnings:
  "list_all (\<lambda>r. type r = Warning) rs \<Longrightarrow>
   list_all (\<lambda>r. type r = Warning) (foldl (note_include e p) rs xs)"
  by (induction xs arbitrary: rs) (simp_all add: note_include_def push_def split: jsvalue.splits)

lemma note_include_join:
  assumes "join e = join e'"
  shows "note_include e p = note_include e' p"
  by (intro ext) (simp only: note_include_def assms)

lemma reference_integrity_warnings:
  "list_all (\<lambda>r. type r = Warning) (validateReferenceIntegrity e p settings [] options)"
  by (simp add: validateReferenceIntegrity_def Let_def push_def note_include_warnings
      split: option.splits jsvalue.splits)

lemma reference_integrity_join:
  assumes "join e = join e'"
  shows "validateReferenceIntegrity e p settings results options =
   validateReferenceIntegrity e' p settings results options"
  by (simp only: validateReferenceIntegrity_def note_include_join [OF assms] assms)

text \<open>
  C6, amended. \<open>validateReferenceIntegrity\<close> never adds a finding of severity error, and
  it reads nothing of the environment but the pure function \<open>join\<close>, so it does not
  depend on the file system. On a schema-valid document it adds exactly one warning naming
  the target when \<open>extend\<close> is a string that is not empty, none when \<open>extend\<close> is
  absent or the empty string, and then one warning per entry of \<open>include\<close>, in the
  order of the sequence.
\<close>

theorem cross_reference_warnings:
  "list_all (\<lambda>r. type r = Warning) (validateReferenceIntegrity e p settings [] options) \<and>
   (join e = join e' \<longrightarrow>
      validateReferenceIntegrity e p settings results options =
      validateReferenceIntegrity e' p settings results options) \<and>
   (schema_issues e settings = [] \<longrightarrow>
      (\<exists>inc. (property settings ''include'' = None \<and> inc = [] \<or>
            property settings ''include'' = Some (JArray (map JString inc))) \<and>
         validateReferenceIntegrity e p settings results options =
           results @
           (case property settings ''extend'' of
              Some (JString x) \<Rightarrow>
                if x = [] then []
                else [\<lparr>path = join e p ''stencil-settings.yml'', type = Warning,
                  message = ''Extend reference found: '' @ x @
                    '' (cannot validate external references in Phase 1)'',
                  details = None\<rparr>]
            | _ \<Rightarrow> []) @
           map (\<lambda>i. \<lparr>path = join e p ''stencil-settings.yml'', type = Warning,
                  message = ''Include reference found: '' @ i @
                    '' (cannot validate external references in Phase 1)'',
                  details = None\<rparr>) inc))"
proof (intro conjI impI)
  show "list_all (\<lambda>r. type r = Warning) (validateReferenceIntegrity e p settings [] options)"
    by (rule reference_integrity_warnings)
next
  assume "join e = join e'"
  then show "validateReferenceIntegrity e p settings results options =
      validateReferenceIntegrity e' p settings results options"
    by (rule reference_integrity_join)
next
  let ?ext = "\<lambda>x. \<lparr>path = join e p ''stencil-settings.yml'', type = Warning,
                  message = ''Extend reference found: '' @ x @
                    '' (cannot validate external references in Phase 1)'',
                  details = None\<rparr>"
  let ?inc = "\<lambda>i. \<lparr>path = join e p ''stencil-settings.yml'', type = Warning,
                  message = ''Include reference found: '' @ i @
                    '' (cannot validate external references in Phase 1)'',
                  details = None\<rparr>"
  assume valid: "schema_issues e settings = []"
  then obtain kvs where kvs: "settings = JObject kvs" using schema_valid_object by blast
  from valid kvs schema_valid_fields(5) [of e kvs] obtain inc
    where inc: "map_of kvs ''include'' = None \<and> inc = [] \<or>
      map_of kvs ''include'' = Some (JArray (map JString inc))"
    by auto
  from valid kvs schema_valid_fields(6) [of e kvs]
  have ext: "map_of kvs ''extend'' = None \<or> (\<exists>x. map_of kvs ''extend'' = Some (JString x))"
    by simp
  have first: "(case map_of kvs ''extend'' of
         Some (JString x) \<Rightarrow>
           if truthy (map_of kvs ''extend'')
           then push results (?ext x)
           else results
       | _ \<Rightarrow> results) =
      results @ (case map_of kvs ''extend'' of
              Some (JString x) \<Rightarrow> if x = [] then [] else [?ext x]
            | _ \<Rightarrow> [])"
    using ext by (auto simp: push_def)
  have "validateReferenceIntegrity e p settings results options =
      results @ (case property settings ''extend'' of
              Some (JString x) \<Rightarrow> if x = [] then [] else [?ext x]
            | _ \<Rightarrow> []) @ map ?inc inc"
    using inc unfolding kvs validateReferenceIntegrity_def Let_def property.simps first
    by (auto simp: foldl_note_include)
  with inc kvs show "\<exists>inc. (property settings ''include'' = None \<and> inc = [] \<or>
            property settings ''include'' = Some (JArray (map JString inc))) \<and>
         validateReferenceIntegrity e p settings results options =
           results @
           (case property settings ''extend'' of
              Some (JString x) \<Rightarrow> if x = [] then [] else [?ext x]
            | _ \<Rightarrow> []) @
           map ?inc inc"
    by (intro exI [of _ inc]) simp
qed

text \<open>A document with \<open>extend\<close> and two entries of \<open>include\<close>, in two environments.\<close>

theorem cross_reference_warnings_witness:
  "join (sample_env [''/r''] [''/r/stencil-settings.yml''] (Inr JNull)) =
     join (sample_env [] [] (Inl NonError)) \<and>
   validateReferenceIntegrity (sample_env [''/r''] [''/r/stencil-settings.yml''] (Inr JNull)) ''/r''
     (JObject (required_fields @ [(''extend'', JString ''base-template''),
        (''include'', JArray [JString ''a'', JString ''b''])])) [] (sample_options False ''error'') =
   validateReferenceIntegrity (sample_env [] [] (Inl NonError)) ''/r''
     (JObject (required_fields @ [(''extend'', JString ''base-template''),
        (''include'', JArray [JString ''a'', JString ''b''])])) [] (sample_options False ''error'') \<and>
   schema_issues (sample_env [''/r''] [''/r/stencil-settings.yml''] (Inr JNull))
     (JObject (required_fields @ [(''extend'', JString ''base-template''),
        (''include'', JArray [JString ''a'', JString ''b''])])) = [] \<and>
   validateReferenceIntegrity (sample_env [''/r''] [''/r/stencil-settings.yml''] (Inr JNull)) ''/r''
     (JObject (required_fields @ [(''extend'', JString ''base-template''),
        (''include'', JArray [JString ''a'', JString ''b''])])) [] (sample_options False ''error'') =
     [\<lparr>path = ''/r/stencil-settings.yml'', type = Warning,
        message = ''Extend reference found: base-template (cannot validate external references in Phase 1)'',
        details = None\<rparr>,
      \<lparr>path = ''/r/stencil-settings.yml'', type = Warning,
        message = ''Include reference found: a (cannot validate external references in Phase 1)'',
        details = None\<rparr>,
      \<lparr>path = ''/r/stencil-settings.yml'', type = Warning,
        message = ''Include reference found: b (cannot validate external references in Phase 1)'',
        details = None\<rparr>]"
proof -
  let ?d = "JObject (required_fields @ [(''extend'', JString ''base-template''),
        (''include'', JArray [JString ''a'', JString ''b''])])"
  let ?e = "sample_env [''/r''] [''/r/stencil-settings.yml''] (Inr JNull)"
  let ?e' = "sample_env [] [] (Inl NonError)"
  let ?o = "sample_options False ''error''"
  note t = cross_reference_warnings [of ?e "''/r''" ?d ?o ?e' "[]"]
  have j: "join ?e = join ?e'" by (simp add: sample_env_def)
  have v: "schema_issues ?e ?d = []" by (simp add: schema_issues_object required_fields_def)
  from t [THEN conjunct2, THEN conjunct1, rule_format, OF j]
  have same: "validateReferenceIntegrity ?e ''/r'' ?d [] ?o = validateReferenceIntegrity ?e' ''/r'' ?d [] ?o" .
  from t [THEN conjunct2, THEN conjunct2, rule_format, OF v]
  obtain inc where i: "property ?d ''include'' = None \<and> inc = [] \<or>
            property ?d ''include'' = Some (JArray (map JString inc))"
    and r: "validateReferenceIntegrity ?e ''/r'' ?d [] ?o =
           [] @
           (case property ?d ''extend'' of
              Some (JString x) \<Rightarrow>
                if x = [] then []
                else [\<lparr>path = join ?e ''/r'' ''stencil-settings.yml'', type = Warning,
                  message = ''Extend reference found: '' @ x @
                    '' (cannot validate external references in Phase 1)'',
                  details = None\<rparr>]
            | _ \<Rightarrow> []) @
           map (\<lambda>i. \<lparr>path = join ?e ''/r'' ''stencil-settings.yml'', type = Warning,
                  message = ''Include reference found: '' @ i @
                    '' (cannot validate external references in Phase 1)'',
                  details = None\<rparr>) inc"
    by (elim exE conjE)
  from i have inc: "inc = [''a'', ''b'']"
    by (auto simp: required_fields_def Cons_eq_map_conv)
  from r have "validateReferenceIntegrity ?e ''/r'' ?d [] ?o =
     [\<lparr>path = ''/r/stencil-settings.yml'', type = Warning,
        message = ''Extend reference found: base-template (cannot validate external references in Phase 1)'',
        details = None\<rparr>,
      \<lparr>path = ''/r/stencil-settings.yml'', type = Warning,
        message = ''Include reference found: a (cannot validate external references in Phase 1)'',
        details = None\<rparr>,
      \<lparr>path = ''/r/stencil-settings.yml'', type = Warning,
        message = ''Include reference found: b (cannot validate external references in Phase 1)'',
        details = None\<rparr>]"
    unfolding inc by (simp add: required_fields_def sample_env_def)
  with j same v show ?thesis by (intro conjI)
qed

text \<open>
  As C6 is written it fails: a schema-valid document whose \<open>extend\<close> is set to the
  empty string reaches the reporter, which adds no finding for it, since the guard
  \<open>settingsObj.extend && ...\<close> takes the empty string for false.
\<close>

theorem empty_extend_counterexample:
  "schema_issues (sample_env [''/r''] [''/r/stencil-settings.yml''] (Inr JNull))
     (JObject (required_fields @ [(''extend'', JString [])])) = [] \<and>
   truthy (Some (JObject (required_fields @ [(''extend'', JString [])]))) \<and>
   property (JObject (required_fields @ [(''extend'', JString [])])) ''extend'' =
     Some (JString []) \<and>
   validateReferenceIntegrity (sample_env [''/r''] [''/r/stencil-settings.yml''] (Inr JNull)) ''/r''
     (JObject (required_fields @ [(''extend'', JString [])])) [] (sample_options False ''error'') = []"
  by (simp add: schema_issues_object required_fields_def validateReferenceIntegrity_def)

subsection \<open>The strict mode\<close>

text \<open>What \<open>performStrictValidation\<close> adds, and when \<open>validateSettingsFile\<close> can warn.\<close>

lemma strict_findings_are_warnings:
  "list_all (\<lambda>r. type r = Warning) (performStrictValidation f d [])"
  by (simp add: performStrictValidation_def push_def Let_def
      split: option.splits jsvalue.splits)

lemma strict_findings:
  assumes "property d ''id'' = Some (JString i)" and "property d ''version'' = Some (JString v)"
  shows "performStrictValidation f d rs =
     rs @
     (if id_regex_test i then []
      else [\<lparr>path = f, type = Warning,
        message = ''Stencil ID should only contain lowercase letters, numbers, hyphens, and underscores'',
        details = None\<rparr>]) @
     (if version_regex_test v then []
      else [\<lparr>path = f, type = Warning,
        message = ''Version should follow semantic versioning format (x.y.z)'',
        details = None\<rparr>]) @
     (if truthy (property d ''description'') then []
      else [\<lparr>path = f, type = Warning,
        message = ''Description is recommended for better documentation'',
        details = None\<rparr>])"
proof -
  from assms(1) obtain kvs where "d = JObject kvs" by (cases d) simp_all
  with assms show ?thesis
    by (simp add: performStrictValidation_def push_def Let_def)
qed

lemma schema_findings_are_errors:
  "type ` set (foldl (\<lambda>rs err. push rs (schema_finding f err)) [] issues) \<subseteq> {Error}"
  by (auto simp: foldl_push schema_finding_def)

lemma warning_needs_strict_and_valid:
  assumes w: "Warning \<in> type ` set (validateSettingsFile e f [] options)"
  shows "strict options = Some True \<and>
    (\<exists>content doc. readFileSync e f = Inr content \<and> parseYaml e content = Inr doc \<and>
       schema_issues e doc = [])"
proof (cases "readFileSync e f")
  case (Inl ex)
  with w show ?thesis by (simp add: validateSettingsFile_def push_def)
next
  case (Inr content)
  note r = this
  show ?thesis
  proof (cases "parseYaml e content")
    case (Inl ex)
    with w r show ?thesis by (simp add: validateSettingsFile_def push_def)
  next
    case (Inr doc)
    note y = this
    show ?thesis
    proof (cases "schema_issues e doc = []")
      case False
      then have "validateSettingsFile e f [] options =
          foldl (\<lambda>rs err. push rs (schema_finding f err)) [] (schema_issues e doc)"
        using r y by (simp add: validateSettingsFile_def safeParse_def)
      with w schema_findings_are_errors [of f "schema_issues e doc"] show ?thesis by auto
    next
      case True
      note v = this
      show ?thesis
      proof (cases "strict options = Some True")
        case True
        with r y v show ?thesis by blast
      next
        case False
        with r y v have "validateSettingsFile e f [] options =
            [\<lparr>path = f, type = Info, message = ''Stencil settings file is valid'', details = None\<rparr>]"
          by (simp add: validateSettingsFile_def safeParse_def push_def)
        with w show ?thesis by simp
      qed
    qed
  qed
qed

text \<open>
  C7. A warning among the findings of \<open>validateSettingsFile\<close> means that the strict
  mode was requested and that the document was read, parsed and found schema-valid, so the
  checks of the strict mode run only then. \<open>performStrictValidation\<close> adds warnings
  only, never an error. In a strict run on a schema-valid document the three checks add, in
  this order and each at most once, a warning when the id does not match
  \<open>[a-z0-9-_]+\<close>, a warning when the version does not begin with digits, a dot, digits,
  a dot, digits, and a warning when the description is absent or empty; each check is
  decided on its own, so all that are violated fire together.
\<close>

theorem strict_mode_checks:
  "(Warning \<in> type ` set (validateSettingsFile e f [] options) \<longrightarrow>
      strict options = Some True \<and>
      (\<exists>content doc. readFileSync e f = Inr content \<and> parseYaml e content = Inr doc \<and>
         schema_issues e doc = [])) \<and>
   list_all (\<lambda>r. type r = Warning) (performStrictValidation f d []) \<and>
   (strict options = Some True \<and> readFileSync e f = Inr content \<and>
    parseYaml e content = Inr doc \<and> schema_issues e doc = [] \<longrightarrow>
      (\<exists>i v. property doc ''id'' = Some (JString i) \<and>
         property doc ''version'' = Some (JString v) \<and>
         validateSettingsFile e f results options =
           results @
           (if id_regex_test i then []
            else [\<lparr>path = f, type = Warning,
              message = ''Stencil ID should only contain lowercase letters, numbers, hyphens, and underscores'',
              details = None\<rparr>]) @
           (if version_regex_test v then []
            else [\<lparr>path = f, type = Warning,
              message = ''Version should follow semantic versioning format (x.y.z)'',
              details = None\<rparr>]) @
           (if truthy (property doc ''description'') then []
            else [\<lparr>path = f, type = Warning,
              message = ''Description is recommended for better documentation'',
              details = None\<rparr>]) @
           [\<lparr>path = f, type = Info, message = ''Stencil settings file is valid'',
             details = None\<rparr>]))"
proof (intro conjI impI)
  assume w: "Warning \<in> type ` set (validateSettingsFile e f [] options)"
  from warning_needs_strict_and_valid [OF w]
  show "strict options = Some True"
    and "\<exists>content doc. readFileSync e f = Inr content \<and> parseYaml e content = Inr doc \<and>
         schema_issues e doc = []"
    by blast+
next
  show "list_all (\<lambda>r. type r = Warning) (performStrictValidation f d [])"
    by (rule strict_findings_are_warnings)
next
  assume a: "strict options = Some True \<and> readFileSync e f = Inr content \<and>
    parseYaml e content = Inr doc \<and> schema_issues e doc = []"
  then obtain kvs where kvs: "doc = JObject kvs" using schema_valid_object by blast
  from a kvs schema_valid_fields(1,2) [of e kvs] obtain i v
    where i: "map_of kvs ''id'' = Some (JString i)" and v: "map_of kvs ''version'' = Some (JString v)"
    by auto
  have keys: "''id'' \<in> fst ` set (StencilSettingsSchema e)"
    "''version'' \<in> fst ` set (StencilSettingsSchema e)"
    "''description'' \<in> fst ` set (StencilSettingsSchema e)"
    by (simp_all add: StencilSettingsSchema_def)
  have p: "property (schema_data e doc) ''id'' = Some (JString i)"
    "property (schema_data e doc) ''version'' = Some (JString v)"
    "property (schema_data e doc) ''description'' = property doc ''description''"
    using i v kvs by (simp_all add: property_schema_data keys)
  have "validateSettingsFile e f results options =
      push (performStrictValidation f (schema_data e doc) results)
        \<lparr>path = f, type = Info, message = ''Stencil settings file is valid'', details = None\<rparr>"
    using a by (simp add: validateSettingsFile_def safeParse_def)
  then have "validateSettingsFile e f results options =
           results @
           (if id_regex_test i then []
            else [\<lparr>path = f, type = Warning,
              message = ''Stencil ID should only contain lowercase letters, numbers, hyphens, and underscores'',
              details = None\<rparr>]) @
           (if version_regex_test v then []
            else [\<lparr>path = f, type = Warning,
              message = ''Version should follow semantic versioning format (x.y.z)'',
              details = None\<rparr>]) @
           (if truthy (property doc ''description'') then []
            else [\<lparr>path = f, type = Warning,
              message = ''Description is recommended for better documentation'',
              details = None\<rparr>]) @
           [\<lparr>path = f, type = Info, message = ''Stencil settings file is valid'',
             details = None\<rparr>]"
    unfolding strict_findings [OF p(1) p(2)] p(3) push_def by simp
  moreover have "property doc ''id'' = Some (JString i)" "property doc ''version'' = Some (JString v)"
    using i v kvs by simp_all
  ultimately show "\<exists>i v. property doc ''id'' = Some (JString i) \<and>
         property doc ''version'' = Some (JString v) \<and>
         validateSettingsFile e f results options =
           results @
           (if id_regex_test i then []
            else [\<lparr>path = f, type = Warning,
              message = ''Stencil ID should only contain lowercase letters, numbers, hyphens, and underscores'',
              details = None\<rparr>]) @
           (if version_regex_test v then []
            else [\<lparr>path = f, type = Warning,
              message = ''Version should follow semantic versioning format (x.y.z)'',
              details = None\<rparr>]) @
           (if truthy (property doc ''description'') then []
            else [\<lparr>path = f, type = Warning,
              message = ''Description is recommended for better documentation'',
              details = None\<rparr>]) @
           [\<lparr>path = f, type = Info, message = ''Stencil settings file is valid'',
             details = None\<rparr>]"
    by blast
qed

text \<open>A document that violates the three checks at once.\<close>

theorem strict_mode_checks_witness:
  "Warning \<in> type ` set (validateSettingsFile (sample_env [''/r''] [''/r/stencil-settings.yml'']
       (Inr (JObject [(''id'', JString ''Bad ID!''), (''name'', JString ''Service''),
          (''version'', JString ''1.0''), (''type'', JString ''service'')])))
     ''/r/stencil-settings.yml'' [] (sample_options True ''warn'')) \<and>
   strict (sample_options True ''warn'') = Some True \<and>
   readFileSync (sample_env [''/r''] [''/r/stencil-settings.yml'']
       (Inr (JObject [(''id'', JString ''Bad ID!''), (''name'', JString ''Service''),
          (''version'', JString ''1.0''), (''type'', JString ''service'')])))
     ''/r/stencil-settings.yml'' = Inr ''content'' \<and>
   schema_issues (sample_env [''/r''] [''/r/stencil-settings.yml'']
       (Inr (JObject [(''id'', JString ''Bad ID!''), (''name'', JString ''Service''),
          (''version'', JString ''1.0''), (''type'', JString ''service'')])))
     (JObject [(''id'', JString ''Bad ID!''), (''name'', JString ''Service''),
          (''version'', JString ''1.0''), (''type'', JString ''service'')]) = [] \<and>
   validateSettingsFile (sample_env [''/r''] [''/r/stencil-settings.yml'']
       (Inr (JObject [(''id'', JString ''Bad ID!''), (''name'', JString ''Service''),
          (''version'', JString ''1.0''), (''type'', JString ''service'')])))
     ''/r/stencil-settings.yml'' [] (sample_options True ''warn'') =
     [\<lparr>path = ''/r/stencil-settings.yml'', type = Warning,
        message = ''Stencil ID should only contain lowercase letters, numbers, hyphens, and underscores'',
        details = None\<rparr>,
      \<lparr>path = ''/r/stencil-settings.yml'', type = Warning,
        message = ''Version should follow semantic versioning format (x.y.z)'',
        details = None\<rparr>,
      \<lparr>path = ''/r/stencil-settings.yml'', type = Warning,
        message = ''Description is recommended for better documentation'',
        details = None\<rparr>,
      \<lparr>path = ''/r/stencil-settings.yml'', type = Info,
        message = ''Stencil settings file is valid'', details = None\<rparr>]"
proof -
  let ?d = "JObject [(''id'', JString ''Bad ID!''), (''name'', JString ''Service''),
          (''version'', JString ''1.0''), (''type'', JString ''service'')]"
  let ?e = "sample_env [''/r''] [''/r/stencil-settings.yml''] (Inr ?d)"
  let ?o = "sample_options True ''warn''"
  have h: "strict ?o = Some True \<and> readFileSync ?e ''/r/stencil-settings.yml'' = Inr ''content'' \<and>
      parseYaml ?e ''content'' = Inr ?d \<and> schema_issues ?e ?d = []"
    by (simp add: sample_options_def sample_env_def schema_issues_object)
  from strict_mode_checks [of ?e "''/r/stencil-settings.yml''" ?o "JNull" "''content''" ?d "[]",
      THEN conjunct2, THEN conjunct2, rule_format, OF h]
  obtain i v where i: "property ?d ''id'' = Some (JString i)"
    and v: "property ?d ''version'' = Some (JString v)"
    and r: "validateSettingsFile ?e ''/r/stencil-settings.yml'' [] ?o =
           [] @
           (if id_regex_test i then []
            else [\<lparr>path = ''/r/stencil-settings.yml'', type = Warning,
              message = ''Stencil ID should only contain lowercase letters, numbers, hyphens, and underscores'',
              details = None\<rparr>]) @
           (if version_regex_test v then []
            else [\<lparr>path = ''/r/stencil-settings.yml'', type = Warning,
              message = ''Version should follow semantic versioning format (x.y.z)'',
              details = None\<rparr>]) @
           (if truthy (property ?d ''description'') then []
            else [\<lparr>path = ''/r/stencil-settings.yml'', type = Warning,
              message = ''Description is recommended for better documentation'',
              details = None\<rparr>]) @
           [\<lparr>path = ''/r/stencil-settings.yml'', type = Info,
             message = ''Stencil settings file is valid'', details = None\<rparr>]"
    by (elim exE conjE)
  from i have i': "i = ''Bad ID!''" by simp
  from v have v': "v = ''1.0''" by simp
  have t1: "\<not> id_regex_test ''Bad ID!''" by (simp add: id_regex_test_def id_char_def)
  have t2: "\<not> version_regex_test ''1.0''"
    by (simp add: version_regex_test_def eat_digits_def digit_def)
  from r have res: "validateSettingsFile ?e ''/r/stencil-settings.yml'' [] ?o =
     [\<lparr>path = ''/r/stencil-settings.yml'', type = Warning,
        message = ''Stencil ID should only contain lowercase letters, numbers, hyphens, and underscores'',
        details = None\<rparr>,
      \<lparr>path = ''/r/stencil-settings.yml'', type = Warning,
        message = ''Version should follow semantic versioning format (x.y.z)'',
        details = None\<rparr>,
      \<lparr>path = ''/r/stencil-settings.yml'', type = Warning,
        message = ''Description is recommended for better documentation'',
        details = None\<rparr>,
      \<lparr>path = ''/r/stencil-settings.yml'', type = Info,
        message = ''Stencil settings file is valid'', details = None\<rparr>]"
    unfolding i' v' by (simp add: t1 t2)
  have w: "Warning \<in> type ` set (validateSettingsFile ?e ''/r/stencil-settings.yml'' [] ?o)"
    unfolding res by simp
  from strict_mode_checks [of ?e "''/r/stencil-settings.yml''" ?o "JNull" "''content''" ?d "[]",
      THEN conjunct1, rule_format, OF w]
  have s: "strict ?o = Some True" by (rule conjunct1)
  from h have h': "readFileSync ?e ''/r/stencil-settings.yml'' = Inr ''content''"
    "schema_issues ?e ?d = []" by simp_all
  from w s h' res show ?thesis by (intro conjI)
qed

subsection \<open>Required fields\<close>

text \<open>
  C8, amended. When the document parses to a mapping that lacks one of the keys \<open>id\<close>,
  \<open>name\<close>, \<open>version\<close>, \<open>type\<close>, the findings of \<open>validateSettingsFile\<close> hold
  an error whose message is "Schema validation failed: ", the key, " - " and the schema
  library's message for a missing string; and the summary of the run has
  \<open>success = False\<close>.
\<close>

theorem missing_required_field:
  assumes "k \<in> set [''id'', ''name'', ''version'', ''type'']" and "map_of kvs k = None"
    and "readFileSync e f = Inr content" and "parseYaml e content = Inr (JObject kvs)"
  shows "\<lparr>path = f, type = Error,
       message = ''Schema validation failed: '' @ k @ '' - '' @ invalid_type_message e ''string'' None,
       details = None\<rparr> \<in> set (validateSettingsFile e f [] options) \<and>
     (existsSync e p \<and> isDirectory e p \<and> existsSync e f \<and> f = join e p ''stencil-settings.yml'' \<longrightarrow>
        success (validateStencilDefinition e now p options) = False)"
proof (intro conjI impI)
  let ?finding = "\<lparr>path = f, type = Error,
       message = ''Schema validation failed: '' @ k @ '' - '' @ invalid_type_message e ''string'' None,
       details = None\<rparr>"
  let ?issue = "\<lparr>issue_path = [Key k], issue_message = invalid_type_message e ''string'' None\<rparr>"
  have issue: "?issue \<in> set (schema_issues e (JObject kvs))"
    using assms(1,2) by (rule required_issue)
  then have ne: "schema_issues e (JObject kvs) \<noteq> []" by auto
  have run: "validateSettingsFile e f [] options =
      map (schema_finding f) (schema_issues e (JObject kvs))"
    using assms(3,4) ne by (simp add: validateSettingsFile_def safeParse_def foldl_push)
  have "schema_finding f ?issue = ?finding" by (simp add: schema_finding_def)
  with issue have "?finding \<in> schema_finding f ` set (schema_issues e (JObject kvs))"
    by (metis imageI)
  then show found: "?finding \<in> set (validateSettingsFile e f [] options)"
    unfolding run by simp
  assume root: "existsSync e p \<and> isDirectory e p \<and> existsSync e f \<and>
    f = join e p ''stencil-settings.yml''"
  let ?r0 = "validateSettingsFile e f [] options"
  obtain ys where ys: "validateFileReferences e p (JObject kvs) ?r0 options = ?r0 @ ys"
    using file_references_prefix by blast
  obtain zs where zs: "validateReferenceIntegrity e p (JObject kvs) (?r0 @ ys) options =
      (?r0 @ ys) @ zs"
    using reference_integrity_prefix by blast
  have load: "loadStencilSettings e f = JObject kvs"
    using assms(3,4) by (simp add: loadStencilSettings_def)
  from root have ex: "existsSync e p" "isDirectory e p" "existsSync e f"
    and fj: "join e p ''stencil-settings.yml'' = f"
    by auto
  have eq: "validateStencilDefinition e now p options =
      createSummary now p (?r0 @ ys @ zs) (length (glob e p))"
    by (simp add: validateStencilDefinition_def Let_def fj ex load ys zs)
  have ne: "filter (\<lambda>r. type r = Error) (?r0 @ ys @ zs) \<noteq> []"
  proof -
    from found have "?finding \<in> set (filter (\<lambda>r. type r = Error) (?r0 @ ys @ zs))"
      by simp
    then have "0 < length (filter (\<lambda>r. type r = Error) (?r0 @ ys @ zs))"
      by (rule length_pos_if_in_set)
    then show ?thesis by simp
  qed
  show "success (validateStencilDefinition e now p options) = False"
    unfolding eq success_createSummary using ne by (rule eq_False [THEN iffD2])
qed

text \<open>A document that holds only \<open>name\<close>.\<close>

theorem missing_required_field_witness:
  "''id'' \<in> set [''id'', ''name'', ''version'', ''type''] \<and>
   map_of [(''name'', JString ''x'')] ''id'' = None \<and>
   readFileSync (sample_env [''/r''] [''/r/stencil-settings.yml'']
     (Inr (JObject [(''name'', JString ''x'')]))) ''/r/stencil-settings.yml'' = Inr ''content'' \<and>
   parseYaml (sample_env [''/r''] [''/r/stencil-settings.yml'']
     (Inr (JObject [(''name'', JString ''x'')]))) ''content'' = Inr (JObject [(''name'', JString ''x'')]) \<and>
   \<lparr>path = ''/r/stencil-settings.yml'', type = Error,
     message = ''Schema validation failed: id - Required'', details = None\<rparr>
     \<in> set (validateSettingsFile (sample_env [''/r''] [''/r/stencil-settings.yml'']
         (Inr (JObject [(''name'', JString ''x'')]))) ''/r/stencil-settings.yml'' []
         (sample_options False ''error'')) \<and>
   success (validateStencilDefinition (sample_env [''/r''] [''/r/stencil-settings.yml'']
     (Inr (JObject [(''name'', JString ''x'')]))) ''t'' ''/r'' (sample_options False ''error'')) = False"
proof -
  let ?kvs = "[(''name'', JString ''x'')]"
  let ?e = "sample_env [''/r''] [''/r/stencil-settings.yml''] (Inr (JObject ?kvs))"
  let ?o = "sample_options False ''error''"
  have h1: "''id'' \<in> set [''id'', ''name'', ''version'', ''type'']" by simp
  have h2: "map_of ?kvs ''id'' = None" by simp
  have h3: "readFileSync ?e ''/r/stencil-settings.yml'' = Inr ''content''"
    by (simp add: sample_env_def)
  have h4: "parseYaml ?e ''content'' = Inr (JObject ?kvs)" by (simp add: sample_env_def)
  have root: "existsSync ?e ''/r'' \<and> isDirectory ?e ''/r'' \<and> existsSync ?e ''/r/stencil-settings.yml'' \<and>
      ''/r/stencil-settings.yml'' = join ?e ''/r'' ''stencil-settings.yml''"
    by (simp add: sample_env_def)
  have msg: "invalid_type_message ?e ''string'' None = ''Required''"
    by (simp add: sample_env_def sample_message_def)
  note t = missing_required_field [OF h1 h2 h3 h4, of ?o "''/r''" "''t''"]
  from t [THEN conjunct1]
  have a: "\<lparr>path = ''/r/stencil-settings.yml'', type = Error,
     message = ''Schema validation failed: id - Required'', details = None\<rparr>
     \<in> set (validateSettingsFile ?e ''/r/stencil-settings.yml'' [] ?o)"
    unfolding msg by simp
  from t [THEN conjunct2, rule_format, OF root]
  have b: "success (validateStencilDefinition ?e ''t'' ''/r'' ?o) = False" .
  from h1 h2 h3 h4 a b show ?thesis by (intro conjI)
qed

text \<open>
  As C8 is written it fails: an empty document parses (to \<open>null\<close>) and has no
  \<open>id\<close>, but the only finding is one error with an empty path, which names no field.
\<close>

theorem empty_document_names_no_field_counterexample:
  "parseYaml (sample_env [''/r''] [''/r/stencil-settings.yml''] (Inr JNull)) ''content'' = Inr JNull \<and>
   property JNull ''id'' = None \<and>
   validateSettingsFile (sample_env [''/r''] [''/r/stencil-settings.yml''] (Inr JNull))
     ''/r/stencil-settings.yml'' [] (sample_options False ''error'') =
     [\<lparr>path = ''/r/stencil-settings.yml'', type = Error,
       message = ''Schema validation failed:  - Expected object, received null'',
       details = None\<rparr>] \<and>
   \<not> (\<exists>r \<in> set (validateSettingsFile (sample_env [''/r''] [''/r/stencil-settings.yml''] (Inr JNull))
     ''/r/stencil-settings.yml'' [] (sample_options False ''error'')).
       \<exists>m. message r = ''Schema validation failed: id - '' @ m)"
proof -
  have r: "validateSettingsFile (sample_env [''/r''] [''/r/stencil-settings.yml''] (Inr JNull))
     ''/r/stencil-settings.yml'' [] (sample_options False ''error'') =
     [\<lparr>path = ''/r/stencil-settings.yml'', type = Error,
       message = ''Schema validation failed:  - Expected object, received null'',
       details = None\<rparr>]"
    by (simp add: validateSettingsFile_def sample_env_def safeParse_def schema_issues_def
        invalid_type_def sample_message_def schema_finding_def push_def)
  show ?thesis unfolding r by (simp add: sample_env_def)
qed

subsection \<open>Determinism\<close>

text \<open>
  C9. Two runs on the same environment (the same directory tree, read by the same
  libraries), the same root and the same options, started at the times \<open>t1\<close> and
  \<open>t2\<close>, return summaries that are equal in every field but \<open>validatedAt\<close>: the
  paths, severities, messages, details and order of the findings are the same.
\<close>

theorem findings_independent_of_clock:
  "validateStencilDefinition e t2 p options =
     (validateStencilDefinition e t1 p options)\<lparr>validatedAt := t2\<rparr>"
  by (simp add: validateStencilDefinition_def createSummary_def Let_def)

end
